theory Spec2Isabelle
  imports Complex_Main
begin

section \<open>The HL7 synthetic data generator: command-line driver\<close>

text \<open>
  This theory embeds the driver script \<^verbatim>\<open>generator/gen_synthetic_data_hl7.py\<close>
  (the body under \<^verbatim>\<open>if __name__ == '__main__'\<close>). The blocks it shares word for word
  with the notebook export \<^verbatim>\<open>_converted_notebooks/SyntheticGenerator_HL7.py\<close> (the header
  check, the sparse-segment loop, the sample count) are separate definitions.

  The support modules \<^verbatim>\<open>timeseries\<close>, \<^verbatim>\<open>hl7\<close>, \<^verbatim>\<open>model_data_hl7\<close>, \<^verbatim>\<open>pseudoperson\<close> and
  \<^verbatim>\<open>synthetic_data_model\<close> are imported by the script, and are not part of the sources at
  hand. Their functions and constants are the fields of the record \<open>env\<close>; every theorem
  about the driver holds for every value of that record.

  Conventions of the embedding:
  \<^item> The random number generator is one Python object, created once and handed to the
    support functions, which draw from it and so change it. A support function that
    receives it takes the generator state and returns the new one; the driver threads it.
  \<^item> Values the driver only passes along (the correlation matrix, the inverse CDFs, the
    file data, the categorical tuples) have the one type \<open>'obj\<close> of Python objects.
  \<^item> The arrays of the signal processing (\<^verbatim>\<open>signal\<close>, \<^verbatim>\<open>synthetic_fourier\<close>,
    \<^verbatim>\<open>synthetic_timeseries\<close>) are objects that the script hands to the support functions
    by reference. They live in a store from references to contents; the synthesizer and
    the repairer take the store and return it, so they may write to any array, and the
    reference they return may be one that is already in use. What the script hands on
    after the loop is the contents of \<^verbatim>\<open>synthetic_timeseries\<close> as the loop left them.
  \<^item> Counts are Python integers (\<open>int\<close>); the repair threshold \<open>attempts * 0.1\<close> is a
    rational number, so the rounding of the floating-point product is not represented.
  \<^item> What the run does to the outside is a list of events in the order of execution: each
    \<^verbatim>\<open>print\<close> (by kind of message, with the values it formats) and each call into a
    support module or the file system. The timing printouts carry no value.
  \<^item> The run ends by falling off the end of the script, by \<^verbatim>\<open>sys.exit\<close>, or by an
    exception raised in the script itself: a failed \<^verbatim>\<open>assert\<close>, \<^verbatim>\<open>int\<close> of a string that
    is no integer, an index into an empty sequence, the subtraction of arrays whose shapes
    do not agree.
\<close>

subsection \<open>Data\<close>

text \<open>The namespace returned by \<^verbatim>\<open>parser.parse_args()\<close> (lines 113-151).\<close>

record args =
  hl7_dir :: string
  jurisdiction :: string
  condition_code :: string
  outfile :: "string option"
  num_samples :: "int option"
  rng_seed :: "int option"
  debug :: bool
  disable_grouping :: bool
  syphilis_total :: bool

datatype exn = AssertionError | ValueError | IndexError | NameError

text \<open>
  How a run can stop before the end of the script (\<^verbatim>\<open>sys.exit\<close> with its argument,
  \<^verbatim>\<open>model.error_exit\<close> with the name it is given, an exception), and how a run ends.
\<close>

datatype stop = SysExit int | ErrorExit string | Raised exn

datatype final = Completed | Stopped stop

text \<open>
  A reference to an array, and the store: the contents of every array at one moment.
\<close>

type_synonym ref = nat

type_synonym arrays = "ref \<Rightarrow> int list"

datatype msg =
    MsgSupportedExtensions
  | MsgArguments string string string "string option" "int option" "int option" bool bool
  | MsgNoDirectory string
  | MsgCodeGroup "int list"
  | MsgNoData string "int list"
  | MsgInputFiles "string list"
  | MsgUnsupportedFormat string
  | MsgFatalBuildOutputFilepath
  | MsgOutputFile string
  | MsgInvalidNumSamples int
  | MsgInvalidFieldCount "string list" "string list"
  | MsgInvalidField string string
  | MsgTimeseriesInfo int nat
  | MsgDateRanges
  | MsgSignalProcessingElapsed
  | MsgTotalCounts int int
  | MsgRunningCopula
  | MsgFatalCopula
  | MsgCorrectingPseudopersons
  | MsgCopulaElapsed
  | MsgWritingOutput string
  | MsgTotalElapsed

datatype 'obj event =
    Print msg
  | Call_enable_debug string
  | Call_isdir string
  | Call_get_grouped_codes int bool
  | Call_build_input_filepaths string string "int list"
  | Call_default_output_dir
  | Call_default_output_file_name string "int list" bool
  | Call_build_output_filepath string string
  | Call_init_rng "int option"
  | Call_init_model_data "string list" "string list"
  | Call_error_exit string
  | Call_get_preprocessed_header
  | Call_signal_from_anchor_date
  | Call_gen_synthetic_fourier "int list" rat
  | Call_modify_sparse_segments ref "int list" rat "int list"
  | Call_copula_n_variable_model int bool
  | Call_correct_invalid_pseudopersons int
  | Call_remap_synthetic_results
  | Call_generate_date_tuples int "int list" string
  | Call_write_output_file string int "int list" "'obj list"

text \<open>
  The support modules and the run-time library, as the script uses them. \<open>isdir\<close> is
  \<^verbatim>\<open>os.path.isdir\<close>; \<open>str_to_int\<close> is \<^verbatim>\<open>int\<close> on a string, \<open>None\<close> when it raises
  \<^verbatim>\<open>ValueError\<close>. \<open>init_rng None\<close> is the generator seeded from the system time (docstring,
  lines 32-33), so it stands for a value that differs from run to run. The argument of
  \<open>default_output_dir\<close> is the keyword \<^verbatim>\<open>netss_outdir\<close>, \<open>None\<close> when the call leaves it
  out. A function of the support modules that may return \<^verbatim>\<open>None\<close> has an option as its
  result. \<open>gen_synthetic_fourier\<close> and \<open>modify_sparse_segments\<close> receive the generator, the
  store, the reference of the array they are called with and a number; they return the
  reference of their result, the store as they leave it, and the generator.
\<close>

record ('rng, 'obj) env =
  isdir :: "string \<Rightarrow> bool"
  str_to_int :: "string \<Rightarrow> int option"
  get_grouped_codes :: "int \<Rightarrow> bool \<Rightarrow> int list"
  build_input_filepaths :: "string \<Rightarrow> string \<Rightarrow> int list \<Rightarrow> string list"
  default_output_dir :: "bool option \<Rightarrow> string option"
  default_output_file_name :: "string \<Rightarrow> int list \<Rightarrow> bool \<Rightarrow> string option"
  build_output_filepath :: "string \<Rightarrow> string \<Rightarrow> string option"
  init_rng :: "int option \<Rightarrow> 'rng"
  NAME_AGE :: string
  NAME_SEX :: string
  NAME_RACE :: string
  NAME_ETHNICITY :: string
  NAME_CASE_STATUS :: string
  NAME_COUNTY :: string
  NAME_PREGNANT :: string
  OUTPUT_FIELDS :: "string list"
  init_model_data :: "string list \<Rightarrow> string list \<Rightarrow> 'rng
      \<Rightarrow> (string list option \<times> 'obj \<times> 'obj \<times> 'obj) \<times> 'rng"
  get_preprocessed_header :: "string list"
  signal_from_anchor_date :: "'obj \<Rightarrow> string list \<times> int list \<times> 'obj"
  gen_synthetic_fourier :: "'rng \<Rightarrow> arrays \<Rightarrow> ref \<Rightarrow> rat \<Rightarrow> (ref \<times> arrays) \<times> 'rng"
  modify_sparse_segments :: "'rng \<Rightarrow> arrays \<Rightarrow> ref \<Rightarrow> rat \<Rightarrow> (ref \<times> arrays) \<times> 'rng"
  copula_n_variable_model :: "int \<Rightarrow> string list \<Rightarrow> 'obj \<Rightarrow> 'obj \<Rightarrow> 'rng
      \<Rightarrow> ('obj option \<times> 'obj) \<times> 'rng"
  correct_invalid_pseudopersons :: "int \<Rightarrow> string list \<Rightarrow> 'obj \<Rightarrow> 'obj \<Rightarrow> 'obj \<Rightarrow> 'rng
      \<Rightarrow> 'obj \<times> 'rng"
  remap_synthetic_results :: "'obj \<Rightarrow> string list \<Rightarrow> 'obj"
  generate_date_tuples :: "int \<Rightarrow> int list \<Rightarrow> string list \<Rightarrow> string list \<Rightarrow> 'obj \<Rightarrow> string
      \<Rightarrow> 'rng \<Rightarrow> 'obj list \<times> 'rng"

text \<open>
  A stage of the script yields the events it caused and either the way the run ended
  there or the values the next stage uses.
\<close>

type_synonym ('obj, 'a) stage = "'obj event list \<times> (stop + 'a)"

definition and_then :: "('obj, 'a) stage \<Rightarrow> ('a \<Rightarrow> ('obj, 'b) stage) \<Rightarrow> ('obj, 'b) stage" where
  "and_then m f =
     (case m of
        (l, Inl e) \<Rightarrow> (l, Inl e)
      | (l, Inr a) \<Rightarrow> (case f a of (l', r) \<Rightarrow> (l @ l', r)))"

subsection \<open>numpy on one-dimensional integer arrays\<close>

text \<open>
  \<^verbatim>\<open>a - b\<close> takes the difference element by element; arrays of different lengths are
  broadcast when one of them has length 1, and raise \<^verbatim>\<open>ValueError\<close> otherwise.
  \<^verbatim>\<open>np.any\<close> holds when some element is not zero, \<^verbatim>\<open>np.sum\<close> adds the elements.
\<close>

definition np_subtract :: "int list \<Rightarrow> int list \<Rightarrow> int list option" where
  "np_subtract a b =
     (if length a = length b then Some (map (\<lambda>(x, y). x - y) (zip a b))
      else if length a = 1 then Some (map (\<lambda>y. hd a - y) b)
      else if length b = 1 then Some (map (\<lambda>x. x - hd b) a)
      else None)"

definition np_any :: "int list \<Rightarrow> bool" where
  "np_any a = list_ex (\<lambda>x. x \<noteq> 0) a"

definition np_sum :: "int list \<Rightarrow> int" where
  "np_sum a = sum_list a"

subsection \<open>The sparse-segment loop (script lines 368-384, notebook lines 427-444)\<close>

definition threshold_inc :: rat where
  "threshold_inc = 1 / 10"

text \<open>
  \<open>signal\<close> and \<open>synthetic_fourier\<close> are the references held by the two variables of
  the script, \<open>arrays\<close> is the store, and \<open>cur\<close> is the variable
  \<^verbatim>\<open>synthetic_timeseries\<close>, unbound before the first pass. Each pass hands the reference
  \<open>synthetic_fourier\<close> to the repairer; the difference is taken between the contents of
  the returned array and of \<open>signal\<close> after the call. The event of a call records the
  reference handed over, the contents of that array at the call, the threshold and the
  contents of the result. The loop yields the reference in \<^verbatim>\<open>synthetic_timeseries\<close>, the
  store and the generator when it is left, by \<^verbatim>\<open>break\<close> or by its condition.
\<close>

function sparse_loop ::
  "('rng, 'obj) env \<Rightarrow> ref \<Rightarrow> ref \<Rightarrow> nat \<Rightarrow> 'rng \<Rightarrow> arrays \<Rightarrow> ref option
     \<Rightarrow> ('obj, ref \<times> arrays \<times> 'rng) stage" where
  "sparse_loop e signal synthetic_fourier attempts rng arrays cur =
     (if attempts < 7 then
        (let delta = of_nat attempts * threshold_inc;
             r = modify_sparse_segments e rng arrays synthetic_fourier delta;
             synthetic_timeseries = fst (fst r);
             arrays1 = snd (fst r);
             ev = Call_modify_sparse_segments synthetic_fourier (arrays synthetic_fourier)
                    delta (arrays1 synthetic_timeseries)
         in case np_subtract (arrays1 synthetic_timeseries) (arrays1 signal) of
              None \<Rightarrow> ([ev], Inl (Raised ValueError))
            | Some diff_signal \<Rightarrow>
                if \<not> np_any diff_signal then
                  (case sparse_loop e signal synthetic_fourier (attempts + 1) (snd r) arrays1
                          (Some synthetic_timeseries) of
                     (l, res) \<Rightarrow> (ev # l, res))
                else ([ev], Inr (synthetic_timeseries, arrays1, snd r)))
      else (case cur of
              None \<Rightarrow> ([], Inl (Raised NameError))
            | Some synthetic_timeseries \<Rightarrow> ([], Inr (synthetic_timeseries, arrays, rng))))"
  by pat_completeness auto
termination
  by (relation "measure (\<lambda>(e, signal, synthetic_fourier, attempts, rng, arrays, cur).
        7 - attempts)") auto

subsection \<open>Strings and paths of the Python library\<close>

text \<open>
  \<^verbatim>\<open>str.endswith\<close>, \<^verbatim>\<open>str.rfind\<close> (the last index of a character, or \<open>-1\<close>),
  \<^verbatim>\<open>str.lower\<close> on ASCII letters, and \<^verbatim>\<open>os.path.splitext\<close> and \<^verbatim>\<open>os.path.split\<close> of
  \<^verbatim>\<open>posixpath\<close>. Both path functions return a pair of strings, never \<^verbatim>\<open>None\<close>.
\<close>

definition endswith :: "string \<Rightarrow> string \<Rightarrow> bool" where
  "endswith s suffix =
     (length suffix \<le> length s \<and> drop (length s - length suffix) s = suffix)"

definition rfind :: "string \<Rightarrow> char \<Rightarrow> int" where
  "rfind s c =
     (case find (\<lambda>i. s ! i = c) (rev [0..<length s]) of
        None \<Rightarrow> - 1
      | Some i \<Rightarrow> int i)"

definition lower_char :: "char \<Rightarrow> char" where
  "lower_char c =
     (let n = (of_char c :: nat) in if 65 \<le> n \<and> n \<le> 90 then char_of (n + 32) else c)"

definition lower :: "string \<Rightarrow> string" where
  "lower s = map lower_char s"

text \<open>
  \<^verbatim>\<open>splitext\<close> cuts at the last dot when that dot lies in the last path component and
  some character of the component before it is not a dot (leading dots are no extension).
\<close>

definition splitext :: "string \<Rightarrow> string \<times> string" where
  "splitext p =
     (let sepIndex = rfind p (CHR ''/'');
          dotIndex = rfind p (CHR ''.'')
      in if dotIndex > sepIndex
            \<and> list_ex (\<lambda>c. c \<noteq> CHR ''.'')
                 (take (nat (dotIndex - (sepIndex + 1))) (drop (nat (sepIndex + 1)) p))
         then (take (nat dotIndex) p, drop (nat dotIndex) p)
         else (p, []))"

definition rstrip :: "string \<Rightarrow> char \<Rightarrow> string" where
  "rstrip s c = rev (dropWhile (\<lambda>x. x = c) (rev s))"

definition split_path :: "string \<Rightarrow> string \<times> string" where
  "split_path p =
     (let i = nat (rfind p (CHR ''/'') + 1);
          head = take i p;
          tail = drop i p
      in (if head \<noteq> [] \<and> head \<noteq> replicate (length head) (CHR ''/'')
          then rstrip head (CHR ''/'') else head, tail))"

definition EXT_CSV :: string where
  "EXT_CSV = ''.csv''"

definition EXT_JSON :: string where
  "EXT_JSON = ''.json''"

text \<open>Truth value of an optional integer and of an optional string in a condition.\<close>

definition truthy_int :: "int option \<Rightarrow> bool" where
  "truthy_int v = (case v of None \<Rightarrow> False | Some n \<Rightarrow> n \<noteq> 0)"

definition truthy_str :: "string option \<Rightarrow> bool" where
  "truthy_str v = (case v of None \<Rightarrow> False | Some s \<Rightarrow> s \<noteq> [])"

subsection \<open>The driver, stage by stage\<close>

definition say :: "msg \<Rightarrow> ('obj, unit) stage" where
  "say m = ([Print m], Inr ())"

definition halt :: "'obj event list \<Rightarrow> stop \<Rightarrow> ('obj, 'a) stage" where
  "halt l f = (l, Inl f)"

definition go_on :: "'obj event list \<Rightarrow> 'a \<Rightarrow> ('obj, 'a) stage" where
  "go_on l v = (l, Inr v)"

text \<open>
  Lines 153-179. The locals \<^verbatim>\<open>outfile\<close>, \<^verbatim>\<open>num_samples\<close> and \<^verbatim>\<open>rng_seed\<close> start as
  \<^verbatim>\<open>None\<close>; \<^verbatim>\<open>rng_seed\<close> and \<^verbatim>\<open>outfile\<close> are set when the argument is true in a
  condition; no statement assigns \<^verbatim>\<open>num_samples\<close> from \<^verbatim>\<open>args.num_samples\<close>. The stage
  yields \<open>(outfile, num_samples, rng_seed, disable_grouping, syphilis_total)\<close>.
\<close>

definition read_options ::
  "args \<Rightarrow> ('obj, string option \<times> int option \<times> int option \<times> bool \<times> bool) stage" where
  "read_options a =
     (let num_samples' = None;
          rng_seed' = (if truthy_int (rng_seed a) then rng_seed a else None);
          disable_grouping' = (if disable_grouping a then True else False);
          syphilis_total' = (if syphilis_total a then True else False)
      in if truthy_str (outfile a) then
           (let outfile' = the (outfile a)
            in if \<not> endswith outfile' ''csv'' \<and> \<not> endswith outfile' ''json''
               then halt [Print MsgSupportedExtensions] (SysExit (- 1))
               else go_on [] (Some outfile', num_samples', rng_seed', disable_grouping',
                              syphilis_total'))
         else go_on [] (None, num_samples', rng_seed', disable_grouping', syphilis_total'))"

text \<open>
  Lines 181-223: the arguments are printed (the locals, not the namespace), debugging is
  switched on, the data root is checked, the code list and the input files are found.
  The stage yields \<open>(code_list, infile_list)\<close>.
\<close>

definition find_input_files ::
  "('rng, 'obj) env \<Rightarrow> args \<Rightarrow> string option \<times> int option \<times> int option \<times> bool \<times> bool
     \<Rightarrow> ('obj, int list \<times> string list) stage" where
  "find_input_files e a opts =
     (case opts of (outfile', num_samples', rng_seed', disable_grouping', syphilis_total') \<Rightarrow>
      and_then (say (MsgArguments (hl7_dir a) (jurisdiction a) (condition_code a) outfile'
                       num_samples' rng_seed' disable_grouping' syphilis_total')) (\<lambda>_.
      and_then (if debug a
                then go_on [Call_enable_debug ''model'', Call_enable_debug ''data'',
                            Call_enable_debug ''timeseries''] ()
                else go_on [] ()) (\<lambda>_.
      and_then (if \<not> isdir e (hl7_dir a)
                then halt [Call_isdir (hl7_dir a), Print (MsgNoDirectory (hl7_dir a))]
                       (SysExit (- 1))
                else go_on [Call_isdir (hl7_dir a)] ()) (\<lambda>_.
      and_then (case str_to_int e (condition_code a) of
                  None \<Rightarrow> halt [] (Raised ValueError)
                | Some c \<Rightarrow> go_on [] c) (\<lambda>condition_code'.
      and_then (if \<not> disable_grouping'
                then go_on [Call_get_grouped_codes condition_code' syphilis_total']
                       (get_grouped_codes e condition_code' syphilis_total')
                else go_on [] [condition_code']) (\<lambda>code_list.
      and_then (say (MsgCodeGroup code_list)) (\<lambda>_.
      and_then (go_on [Call_build_input_filepaths (hl7_dir a) (jurisdiction a) code_list]
                  (build_input_filepaths e (hl7_dir a) (jurisdiction a) code_list))
        (\<lambda>infile_list.
      if 0 = length infile_list
      then halt [Print (MsgNoData (jurisdiction a) code_list)] (SysExit 0)
      else go_on [Print (MsgInputFiles infile_list)] (code_list, infile_list)))))))))"

text \<open>
  Lines 225-265: the output path. \<open>ext\<close> and \<open>output_dir\<close> come from \<^verbatim>\<open>os.path\<close>
  functions, so both are strings and the two tests \<^verbatim>\<open>is None\<close> on them are false: they
  are \<open>Some\<close> values here, and the \<open>None\<close> cases are the branches of lines 241 and 254.
\<close>

definition output_path ::
  "('rng, 'obj) env \<Rightarrow> args \<Rightarrow> string option \<Rightarrow> bool \<Rightarrow> int list \<Rightarrow> ('obj, string) stage" where
  "output_path e a outfile' syphilis_total' code_list =
     and_then
       (case outfile' of
          None \<Rightarrow>
            go_on [Call_default_output_dir,
                   Call_default_output_file_name (jurisdiction a) code_list syphilis_total']
              (default_output_dir e (Some False),
               default_output_file_name e (jurisdiction a) code_list syphilis_total')
        | Some outfile0 \<Rightarrow>
            and_then
              (case Some (snd (splitext outfile0)) of
                 None \<Rightarrow> go_on [] (outfile0 @ EXT_CSV)
               | Some ext0 \<Rightarrow>
                   (let ext = lower ext0
                    in if EXT_CSV \<noteq> ext \<and> EXT_JSON \<noteq> ext
                       then halt [Print (MsgUnsupportedFormat ext)] (SysExit (- 1))
                       else go_on [] outfile0))
              (\<lambda>outfile1.
                 case Some (fst (split_path outfile1)) of
                   None \<Rightarrow> go_on [Call_default_output_dir]
                             (default_output_dir e None, Some (snd (split_path outfile1)))
                 | Some output_dir \<Rightarrow>
                     go_on [] (Some output_dir, Some (snd (split_path outfile1)))))
       (\<lambda>(output_dir, output_file_name).
          if output_dir = None \<or> output_file_name = None then halt [] (Raised AssertionError)
          else
            (case build_output_filepath e (the output_dir) (the output_file_name) of
               None \<Rightarrow>
                 halt [Call_build_output_filepath (the output_dir) (the output_file_name),
                       Print MsgFatalBuildOutputFilepath] (SysExit (- 1))
             | Some output_file_path \<Rightarrow>
                 go_on [Call_build_output_filepath (the output_dir) (the output_file_name),
                        Print (MsgOutputFile output_file_path)] output_file_path))"

text \<open>
  Lines 267-276: the generator is created from the local \<^verbatim>\<open>rng_seed\<close>, then the local
  \<^verbatim>\<open>num_samples\<close> is checked.
\<close>

definition init_and_check_count ::
  "('rng, 'obj) env \<Rightarrow> int option \<Rightarrow> int option \<Rightarrow> ('obj, 'rng) stage" where
  "init_and_check_count e rng_seed' num_samples' =
     and_then (go_on [Call_init_rng rng_seed'] (init_rng e rng_seed')) (\<lambda>rng.
       case num_samples' of
         None \<Rightarrow> go_on [] rng
       | Some n \<Rightarrow>
           if n \<le> 0 then halt [Print (MsgInvalidNumSamples n)] (SysExit (- 1))
           else go_on [] rng)"

text \<open>
  Lines 304-318: the header of the preprocessed files against \<^verbatim>\<open>HL7.OUTPUT_FIELDS\<close>. The
  \<^verbatim>\<open>for\<close> loop leaves at the first index where the two differ. The notebook (lines
  314-328) makes the same comparison and leaves with \<^verbatim>\<open>raise SystemExit()\<close>.
\<close>

definition check_output_fields :: "string list \<Rightarrow> string list \<Rightarrow> ('obj, unit) stage" where
  "check_output_fields header_list output_fields =
     (if length header_list \<noteq> length output_fields
      then halt [Print (MsgInvalidFieldCount header_list output_fields)] (SysExit (- 1))
      else
        (case find (\<lambda>i. header_list ! i \<noteq> output_fields ! i) [0..<length output_fields] of
           Some i \<Rightarrow> halt [Print (MsgInvalidField (header_list ! i) (output_fields ! i))] (SysExit (- 1))
         | None \<Rightarrow> go_on [] ()))"

text \<open>
  Modelled from the spec: \<^verbatim>\<open>model.error_exit\<close> of the module \<^verbatim>\<open>synthetic_data_model\<close>, which
  is not among the sources. Section 7 of the specification has a structural error abort
  the run at once with a diagnostic that names the stage; the call of line 299 passes the
  generator and the name of the stage.
\<close>

definition error_exit :: "'rng \<Rightarrow> string \<Rightarrow> ('obj, 'a) stage" where
  "error_exit rng name = halt [Call_error_exit name] (ErrorExit name)"

text \<open>
  Lines 284-318: the input files are loaded and the output fields are checked. The stage
  yields \<open>(variable_names, tau_original, cdf_list, file_data, rng)\<close>.
\<close>

definition load_input ::
  "('rng, 'obj) env \<Rightarrow> string list \<Rightarrow> 'rng
     \<Rightarrow> ('obj, string list \<times> 'obj \<times> 'obj \<times> 'obj \<times> 'rng) stage" where
  "load_input e infile_list rng =
     (let variable_names_in =
            [NAME_AGE e, NAME_SEX e, NAME_RACE e, NAME_ETHNICITY e, NAME_CASE_STATUS e,
             NAME_COUNTY e, NAME_PREGNANT e];
          r = init_model_data e infile_list variable_names_in rng
      in case r of ((variable_names, tau_original, cdf_list, file_data), rng1) \<Rightarrow>
         and_then (go_on [Call_init_model_data infile_list variable_names_in] ()) (\<lambda>_.
         and_then
           (if variable_names = None \<or> length variable_names_in \<noteq> length (the variable_names)
            then error_exit rng1 ''init_model_data''
            else go_on [] ()) (\<lambda>_.
         and_then (go_on [Call_get_preprocessed_header] (get_preprocessed_header e))
           (\<lambda>header_list.
         and_then (check_output_fields header_list (OUTPUT_FIELDS e)) (\<lambda>_.
         go_on [] (the variable_names, tau_original, cdf_list, file_data, rng1))))))"

text \<open>
  Lines 326-391: the signal, the Fourier synthesis with \<^verbatim>\<open>pct_to_modify=0.0\<close>, and the
  sparse-segment loop. The array \<^verbatim>\<open>signal\<close> that the loader returns is the first object
  of the store, at reference 0. The stage yields
  \<open>(dates, sample_count_orig, str_max_date_orig, synthetic_timeseries, rng)\<close>, the fourth
  being the contents of the array.
\<close>

definition signal_processing ::
  "('rng, 'obj) env \<Rightarrow> 'obj \<Rightarrow> 'rng
     \<Rightarrow> ('obj, string list \<times> int \<times> string \<times> int list \<times> 'rng) stage" where
  "signal_processing e file_data rng =
     (case signal_from_anchor_date e file_data of (dates, signal0, maps) \<Rightarrow>
      let signal = (0 :: ref);
          arrays = (\<lambda>_. [])(signal := signal0)
      in
      and_then (if length (arrays signal) = length dates
                then go_on [Call_signal_from_anchor_date] ()
                else halt [Call_signal_from_anchor_date] (Raised AssertionError)) (\<lambda>_.
      let sample_count_orig = np_sum (arrays signal)
      in
      and_then (if dates = [] then halt [] (Raised IndexError) else go_on [] (last dates))
        (\<lambda>str_max_date_orig.
      and_then (go_on [Print (MsgTimeseriesInfo sample_count_orig (length (arrays signal))),
                       Print MsgDateRanges] ()) (\<lambda>_.
      let r = gen_synthetic_fourier e rng arrays signal 0;
          synthetic_fourier = fst (fst r);
          arrays1 = snd (fst r)
      in
      and_then (if length (arrays1 synthetic_fourier) = length (arrays1 signal)
                then go_on [Call_gen_synthetic_fourier (arrays signal) 0] ()
                else halt [Call_gen_synthetic_fourier (arrays signal) 0]
                       (Raised AssertionError)) (\<lambda>_.
      and_then (sparse_loop e signal synthetic_fourier 0 (snd r) arrays1 None)
        (\<lambda>(synthetic_timeseries, arrays2, rng2).
      go_on [Print MsgSignalProcessingElapsed]
        (dates, sample_count_orig, str_max_date_orig, arrays2 synthetic_timeseries,
         rng2)))))))"

text \<open>
  Lines 399-405 (notebook lines 485-491): the number of categorical tuples to ask for.
\<close>

definition requested_count :: "int list \<Rightarrow> int option \<Rightarrow> int" where
  "requested_count synthetic_timeseries num_samples' =
     (let sample_count_synthetic = np_sum synthetic_timeseries
      in case num_samples' of
           None \<Rightarrow> sample_count_synthetic
         | Some n \<Rightarrow> n)"

text \<open>
  Lines 399-475: the copula model, the correction of the pseudopersons, the remapping,
  the date tuples and the output file. The call that writes the file is an event; a
  failure inside the writer is not represented. \<open>synthetic_timeseries\<close> is the contents of
  the array at the end of the loop; the deriver and the writer are given these contents,
  so a change that the deriver might make to the array before the writer receives it is
  not represented.
\<close>

definition tuples_and_output ::
  "('rng, 'obj) env \<Rightarrow> string \<Rightarrow> int option \<Rightarrow> string list \<Rightarrow> 'obj \<Rightarrow> 'obj
     \<Rightarrow> string list \<Rightarrow> int \<Rightarrow> string \<Rightarrow> int list \<Rightarrow> 'rng \<Rightarrow> ('obj, unit) stage" where
  "tuples_and_output e output_file_path num_samples' variable_names tau_original cdf_list
       dates sample_count_orig str_max_date_orig synthetic_timeseries rng =
     (let sample_count_synthetic = requested_count synthetic_timeseries num_samples'
      in
      and_then (go_on [Print (MsgTotalCounts sample_count_orig
                                (np_sum synthetic_timeseries)),
                       Print MsgRunningCopula] ()) (\<lambda>_.
      case copula_n_variable_model e sample_count_synthetic variable_names tau_original
             cdf_list rng of
        ((synthetic_data, tau_synthetic), rng1) \<Rightarrow>
      (case synthetic_data of
         None \<Rightarrow> halt [Call_copula_n_variable_model sample_count_synthetic False,
                       Print MsgFatalCopula] (SysExit (- 1))
       | Some synthetic_data0 \<Rightarrow>
      and_then (go_on [Call_copula_n_variable_model sample_count_synthetic True,
                       Print MsgCorrectingPseudopersons] ()) (\<lambda>_.
      case correct_invalid_pseudopersons e sample_count_synthetic variable_names
             synthetic_data0 tau_original cdf_list rng1 of
        (synthetic_data1, rng2) \<Rightarrow>
      let synthetic_results = remap_synthetic_results e synthetic_data1 variable_names
      in
      and_then (go_on [Call_correct_invalid_pseudopersons sample_count_synthetic,
                       Call_remap_synthetic_results, Print MsgCopulaElapsed] ()) (\<lambda>_.
      case generate_date_tuples e sample_count_synthetic synthetic_timeseries dates
             variable_names synthetic_results str_max_date_orig rng2 of
        (date_tuple_list, rng3) \<Rightarrow>
      go_on [Call_generate_date_tuples sample_count_synthetic synthetic_timeseries
               str_max_date_orig,
             Print (MsgWritingOutput output_file_path),
             Call_write_output_file output_file_path sample_count_synthetic
               synthetic_timeseries date_tuple_list,
             Print MsgTotalElapsed] ())))))"

text \<open>
  Lines 153-276, up to the comment \<^verbatim>\<open>start the run\<close>: the four stages above in sequence.
  The stage yields \<open>(output_file_path, num_samples, infile_list, rng)\<close>.
\<close>

definition prepare ::
  "('rng, 'obj) env \<Rightarrow> args \<Rightarrow> ('obj, string \<times> int option \<times> string list \<times> 'rng) stage" where
  "prepare e a =
     and_then (read_options a)
       (\<lambda>(outfile', num_samples', rng_seed', disable_grouping', syphilis_total').
     and_then (find_input_files e a
                 (outfile', num_samples', rng_seed', disable_grouping', syphilis_total'))
       (\<lambda>(code_list, infile_list).
     and_then (output_path e a outfile' syphilis_total' code_list) (\<lambda>output_file_path.
     and_then (init_and_check_count e rng_seed' num_samples') (\<lambda>rng.
     go_on [] (output_file_path, num_samples', infile_list, rng)))))"

text \<open>The whole script: its events and the way it ends.\<close>

definition script :: "('rng, 'obj) env \<Rightarrow> args \<Rightarrow> ('obj, unit) stage" where
  "script e a =
     and_then (prepare e a) (\<lambda>(output_file_path, num_samples', infile_list, rng).
     and_then (load_input e infile_list rng)
       (\<lambda>(variable_names, tau_original, cdf_list, file_data, rng1).
     and_then (signal_processing e file_data rng1)
       (\<lambda>(dates, sample_count_orig, str_max_date_orig, synthetic_timeseries, rng2).
     tuples_and_output e output_file_path num_samples' variable_names tau_original cdf_list
       dates sample_count_orig str_max_date_orig synthetic_timeseries rng2)))"

definition main :: "('rng, 'obj) env \<Rightarrow> args \<Rightarrow> 'obj event list \<times> final" where
  "main e a =
     (case script e a of
        (l, Inl f) \<Rightarrow> (l, Stopped f)
      | (l, Inr _) \<Rightarrow> (l, Completed))"

subsection \<open>Notions used to state the properties\<close>

text \<open>
  The part of the script an event belongs to: 1 for the preparation (lines 153-276),
  2 for loading the input and checking the header (lines 284-318), 3 for the signal
  processing (lines 326-391), 4 for the copula model and everything after it
  (lines 399-475).
\<close>

fun msg_part :: "msg \<Rightarrow> nat" where
  "msg_part (MsgInvalidFieldCount h f) = 2"
| "msg_part (MsgInvalidField h f) = 2"
| "msg_part (MsgTimeseriesInfo s n) = 3"
| "msg_part MsgDateRanges = 3"
| "msg_part MsgSignalProcessingElapsed = 3"
| "msg_part (MsgTotalCounts s n) = 4"
| "msg_part MsgRunningCopula = 4"
| "msg_part MsgFatalCopula = 4"
| "msg_part MsgCorrectingPseudopersons = 4"
| "msg_part MsgCopulaElapsed = 4"
| "msg_part (MsgWritingOutput p) = 4"
| "msg_part MsgTotalElapsed = 4"
| "msg_part _ = 1"

fun part_of :: "'obj event \<Rightarrow> nat" where
  "part_of (Print m) = msg_part m"
| "part_of (Call_init_model_data f n) = 2"
| "part_of (Call_error_exit s) = 2"
| "part_of Call_get_preprocessed_header = 2"
| "part_of Call_signal_from_anchor_date = 3"
| "part_of (Call_gen_synthetic_fourier s p) = 3"
| "part_of (Call_modify_sparse_segments f xs d r) = 3"
| "part_of (Call_copula_n_variable_model n ok) = 4"
| "part_of (Call_correct_invalid_pseudopersons n) = 4"
| "part_of Call_remap_synthetic_results = 4"
| "part_of (Call_generate_date_tuples n t m) = 4"
| "part_of (Call_write_output_file p n t d) = 4"
| "part_of _ = 1"

text \<open>The work that follows the copula model: correction, remapping, dates, output.\<close>

fun after_copula :: "'obj event \<Rightarrow> bool" where
  "after_copula (Call_correct_invalid_pseudopersons n) = True"
| "after_copula Call_remap_synthetic_results = True"
| "after_copula (Call_generate_date_tuples n t m) = True"
| "after_copula (Call_write_output_file p n t d) = True"
| "after_copula _ = False"







text \<open>
  The attempts of the sparse-segment loop, one after the other from the generator and the
  store at the entry of the loop. \<open>loop_state k\<close> is the generator and the store before
  attempt \<open>k\<close>; \<open>attempt k\<close> is what the call of attempt \<open>k\<close> returns.
\<close>

primrec loop_state ::
  "('rng, 'obj) env \<Rightarrow> ref \<Rightarrow> 'rng \<Rightarrow> arrays \<Rightarrow> nat \<Rightarrow> 'rng \<times> arrays" where
  "loop_state e synthetic_fourier rng arrays 0 = (rng, arrays)"
| "loop_state e synthetic_fourier rng arrays (Suc k) =
     (let s = loop_state e synthetic_fourier rng arrays k;
          r = modify_sparse_segments e (fst s) (snd s) synthetic_fourier
                (of_nat k * threshold_inc)
      in (snd r, snd (fst r)))"

definition attempt ::
  "('rng, 'obj) env \<Rightarrow> ref \<Rightarrow> 'rng \<Rightarrow> arrays \<Rightarrow> nat \<Rightarrow> (ref \<times> arrays) \<times> 'rng" where
  "attempt e synthetic_fourier rng arrays k =
     modify_sparse_segments e (fst (loop_state e synthetic_fourier rng arrays k))
       (snd (loop_state e synthetic_fourier rng arrays k)) synthetic_fourier
       (of_nat k * threshold_inc)"

text \<open>
  At attempt \<open>k\<close>: the contents of \<open>synthetic_fourier\<close> when the repairer is called, the
  reference it returns, the contents of the array it returns, and the contents of
  \<open>signal\<close> when the difference is taken.
\<close>

definition attempt_input ::
  "('rng, 'obj) env \<Rightarrow> ref \<Rightarrow> 'rng \<Rightarrow> arrays \<Rightarrow> nat \<Rightarrow> int list" where
  "attempt_input e synthetic_fourier rng arrays k =
     snd (loop_state e synthetic_fourier rng arrays k) synthetic_fourier"

definition attempt_ref ::
  "('rng, 'obj) env \<Rightarrow> ref \<Rightarrow> 'rng \<Rightarrow> arrays \<Rightarrow> nat \<Rightarrow> ref" where
  "attempt_ref e synthetic_fourier rng arrays k =
     fst (fst (attempt e synthetic_fourier rng arrays k))"

definition attempt_result ::
  "('rng, 'obj) env \<Rightarrow> ref \<Rightarrow> 'rng \<Rightarrow> arrays \<Rightarrow> nat \<Rightarrow> int list" where
  "attempt_result e synthetic_fourier rng arrays k =
     snd (fst (attempt e synthetic_fourier rng arrays k))
       (fst (fst (attempt e synthetic_fourier rng arrays k)))"

definition attempt_signal ::
  "('rng, 'obj) env \<Rightarrow> ref \<Rightarrow> ref \<Rightarrow> 'rng \<Rightarrow> arrays \<Rightarrow> nat \<Rightarrow> int list" where
  "attempt_signal e signal synthetic_fourier rng arrays k =
     snd (fst (attempt e synthetic_fourier rng arrays k)) signal"

definition attempt_event ::
  "('rng, 'obj) env \<Rightarrow> ref \<Rightarrow> 'rng \<Rightarrow> arrays \<Rightarrow> nat \<Rightarrow> 'obj event" where
  "attempt_event e synthetic_fourier rng arrays k =
     Call_modify_sparse_segments synthetic_fourier
       (attempt_input e synthetic_fourier rng arrays k) (of_nat k * threshold_inc)
       (attempt_result e synthetic_fourier rng arrays k)"

text \<open>
  What the loop does with a result (lines 377-384): the subtraction raises
  \<^verbatim>\<open>ValueError\<close> (\<open>Mismatch\<close>), the difference is zero everywhere and the loop goes to the
  next attempt (\<open>Retry\<close>), or the loop is left with the result (\<open>Accept\<close>).
\<close>

datatype outcome = Retry | Accept | Mismatch

definition difference_outcome :: "int list \<Rightarrow> int list \<Rightarrow> outcome" where
  "difference_outcome synthetic_timeseries signal =
     (case np_subtract synthetic_timeseries signal of
        None \<Rightarrow> Mismatch
      | Some diff_signal \<Rightarrow> if \<not> np_any diff_signal then Retry else Accept)"

definition attempt_outcome ::
  "('rng, 'obj) env \<Rightarrow> ref \<Rightarrow> ref \<Rightarrow> 'rng \<Rightarrow> arrays \<Rightarrow> nat \<Rightarrow> outcome" where
  "attempt_outcome e signal synthetic_fourier rng arrays k =
     difference_outcome (attempt_result e synthetic_fourier rng arrays k)
       (attempt_signal e signal synthetic_fourier rng arrays k)"

text \<open>
  The first of the attempts 0 to 6 whose outcome is not \<open>Retry\<close>, and 7 when there is
  none.
\<close>

definition stop_attempt ::
  "('rng, 'obj) env \<Rightarrow> ref \<Rightarrow> ref \<Rightarrow> 'rng \<Rightarrow> arrays \<Rightarrow> nat" where
  "stop_attempt e signal synthetic_fourier rng arrays =
     (case find (\<lambda>k. attempt_outcome e signal synthetic_fourier rng arrays k \<noteq> Retry) [0..<7] of
        None \<Rightarrow> 7
      | Some k \<Rightarrow> k)"

text \<open>
  The repairer leaves the array it is handed as it was: after a call with the reference
  \<open>r\<close> the contents at \<open>r\<close> are those before the call.
\<close>

definition keeps_argument :: "('rng, 'obj) env \<Rightarrow> ref \<Rightarrow> bool" where
  "keeps_argument e r =
     (\<forall>rng arrays delta.
        snd (fst (modify_sparse_segments e rng arrays r delta)) r = arrays r)"

subsection \<open>The date tuple deriver\<close>

text \<open>
  Modelled from the spec: \<^verbatim>\<open>generate_date_tuples\<close> of the module \<^verbatim>\<open>model_data_hl7\<close>, which
  the driver calls at lines 451-457 and which is not among the sources. The model follows
  section 4.5 of the specification. A date is its proleptic Gregorian ordinal, as
  \<^verbatim>\<open>date.toordinal\<close> gives it; \<open>max_ordinal\<close> is the ordinal of the documented ceiling
  \<^verbatim>\<open>9999-12-31\<close>.
\<close>

definition max_ordinal :: int where
  "max_ordinal = 3652059"

text \<open>
  Modelled from the spec: the calendar sequence \<open>days\<close> aligned with the synthetic signal.
  When more tuples are asked for than the signal counts, the sequence goes on with the
  days after the last one and the signal is repeated (the notebook, line 782, says that
  the timeseries is repeated into the future).
\<close>

definition day_at :: "int list \<Rightarrow> nat \<Rightarrow> int" where
  "day_at days k =
     (if k < length days then days ! k else last days + int (k + 1 - length days))"

definition count_at :: "int list \<Rightarrow> nat \<Rightarrow> nat" where
  "count_at synthetic_signal k = nat (synthetic_signal ! (k mod length synthetic_signal))"

text \<open>
  Modelled from the spec: the \<open>c\<close> tuples of one day \<open>d\<close>. Each has \<open>d\<close> as its anchor
  date and secondary dates \<open>d + offset\<close> for sampled offsets, bounded by the ceiling.
  \<open>draw\<close> samples the offsets of one tuple from the generator.
\<close>

primrec date_day ::
  "('rng \<Rightarrow> int list \<times> 'rng) \<Rightarrow> int \<Rightarrow> nat \<Rightarrow> 'rng \<Rightarrow> (int \<times> int list) list \<times> 'rng" where
  "date_day draw d 0 rng = ([], rng)"
| "date_day draw d (Suc c) rng =
     (let r = draw rng;
          t = (d, map (\<lambda>offset. min (d + offset) max_ordinal) (fst r));
          rest = date_day draw d c (snd r)
      in (t # fst rest, snd rest))"

text \<open>
  Modelled from the spec: the days are processed in order; day \<open>k\<close> with count \<open>c\<close> takes
  the next \<open>c\<close> tuples that are not yet dated. When the next day lies beyond the ceiling
  and tuples remain, generation halts; the flag reports the truncation.
\<close>

function derive_from ::
  "('rng \<Rightarrow> int list \<times> 'rng) \<Rightarrow> int list \<Rightarrow> int list \<Rightarrow> nat \<Rightarrow> nat \<Rightarrow> 'rng
     \<Rightarrow> (int \<times> int list) list \<times> bool \<times> 'rng" where
  "derive_from draw synthetic_signal days k remaining rng =
     (if remaining = 0 \<or> synthetic_signal = [] \<or> days = [] then ([], False, rng)
      else if day_at days k > max_ordinal then ([], True, rng)
      else
        (let c = min (count_at synthetic_signal k) remaining;
             today = date_day draw (day_at days k) c rng;
             rest = derive_from draw synthetic_signal days (k + 1) (remaining - c) (snd today)
         in (fst today @ fst rest, snd rest)))"
  by pat_completeness auto
termination
  by (relation "measure (\<lambda>(draw, synthetic_signal, days, k, remaining, rng).
        length days + nat (max_ordinal - last days) + 1 - k)")
     (auto simp: day_at_def split: if_splits)

text \<open>
  Modelled from the spec: the contract \<open>derive(n, synthetic_signal, days, ..., rng)\<close> of
  section 4.5, which yields the date tuples, the truncation flag and the generator.
\<close>

definition derive ::
  "('rng \<Rightarrow> int list \<times> 'rng) \<Rightarrow> int \<Rightarrow> int list \<Rightarrow> int list \<Rightarrow> 'rng
     \<Rightarrow> (int \<times> int list) list \<times> bool \<times> 'rng" where
  "derive draw n synthetic_signal days rng =
     derive_from draw synthetic_signal days 0 (nat n) rng"

subsection \<open>A small instance of the support modules\<close>

text \<open>
  One concrete environment on which the driver can be run: the generator state is an
  integer, objects are integers. \<open>clock\<close> is the system time that seeds the generator when
  no seed is given. The data root \<^verbatim>\<open>/data\<close> holds one file for Connecticut; the signal
  has three days; the synthesizer returns a copy of the signal in a new array, at
  reference 1; the repairer returns a copy of the array it is handed in a new array, at
  reference 2, and from threshold \<open>3/10\<close> on it adds a draw to the second day of the
  copy; the copula model fails for a count that is not positive.
\<close>

definition demo_fields :: "string list" where
  "demo_fields = [''age'', ''sex'', ''count'']"

definition demo_env :: "int \<Rightarrow> (int, int) env" where
  "demo_env clock =
     \<lparr> isdir = (\<lambda>d. d = ''/data''),
       str_to_int = (\<lambda>s. if s = ''11080'' then Some 11080 else None),
       get_grouped_codes = (\<lambda>c t. [c]),
       build_input_filepaths = (\<lambda>d j cs. if j = ''CT'' then [''/data/CT/11080.csv''] else []),
       default_output_dir = (\<lambda>n. Some ''synthetic_results_hl7''),
       default_output_file_name = (\<lambda>j cs t. Some ''synthetic_11080_ct.csv''),
       build_output_filepath = (\<lambda>d f. Some (if d = [] then f else d @ ''/'' @ f)),
       init_rng = (\<lambda>seed. case seed of None \<Rightarrow> clock | Some s \<Rightarrow> s),
       NAME_AGE = ''AGE'', NAME_SEX = ''SEX'', NAME_RACE = ''RACE'',
       NAME_ETHNICITY = ''ETHNICITY'', NAME_CASE_STATUS = ''CASE_STATUS'',
       NAME_COUNTY = ''COUNTY'', NAME_PREGNANT = ''PREGNANT'',
       OUTPUT_FIELDS = demo_fields,
       init_model_data = (\<lambda>files names rng. ((Some names, 0, 0, 0), rng + 1)),
       get_preprocessed_header = demo_fields,
       signal_from_anchor_date = (\<lambda>fd. ([''2020-01-01'', ''2020-01-02'', ''2020-01-03''],
                                          [0, 5, 0], 0)),
       gen_synthetic_fourier = (\<lambda>rng arrays r pct. ((1, arrays(1 := arrays r)), rng + 1)),
       modify_sparse_segments =
         (\<lambda>rng arrays r delta.
            ((2, arrays(2 := (if delta < 3 / 10 then arrays r
                              else (arrays r)[1 := arrays r ! 1 + rng mod 4]))),
             rng + 1)),
       copula_n_variable_model =
         (\<lambda>n names tau cdf rng. ((if 0 < n then Some rng else None, 0), rng + 1)),
       correct_invalid_pseudopersons = (\<lambda>n names d tau cdf rng. (d, rng + 1)),
       remap_synthetic_results = (\<lambda>d names. d),
       generate_date_tuples =
         (\<lambda>n ts dates names res mx rng. (replicate (nat n) rng, rng + 1)) \<rparr>"

definition demo_args :: args where
  "demo_args =
     \<lparr> hl7_dir = ''/data'', jurisdiction = ''CT'', condition_code = ''11080'',
       outfile = None, num_samples = None, rng_seed = None, debug = False,
       disable_grouping = False, syphilis_total = False \<rparr>"

text \<open>The same environment with a copula model that fails, and with a permuted header.\<close>

definition failing_copula_env :: "(int, int) env" where
  "failing_copula_env =
     (demo_env 7)\<lparr>copula_n_variable_model := (\<lambda>n names tau cdf rng. ((None, 0), rng + 1))\<rparr>"

definition bad_header_env :: "(int, int) env" where
  "bad_header_env = (demo_env 7)\<lparr>get_preprocessed_header := [''age'', ''count'', ''sex'']\<rparr>"




text \<open>
  The same environment with a synthesizer whose output has every count that is not zero
  one below the signal, and a repairer that works in place: it adds one to every count
  that is not zero of the array it is handed and returns that array.
\<close>

definition inplace_repair_env :: "(int, int) env" where
  "inplace_repair_env =
     (demo_env 7)\<lparr>
        gen_synthetic_fourier :=
          (\<lambda>rng arrays r pct.
             ((1, arrays(1 := map (\<lambda>x. if x = 0 then 0 else x - 1) (arrays r))), rng + 1)),
        modify_sparse_segments :=
          (\<lambda>rng arrays r delta.
             ((r, arrays(r := map (\<lambda>x. if x = 0 then 0 else x + 1) (arrays r))), rng + 1))\<rparr>"

text \<open>Stores with a signal at reference 0 and a Fourier output at reference 1.\<close>

definition demo_arrays :: arrays where
  "demo_arrays = (\<lambda>_. [])(0 := [0, 5, 0], 1 := [0, 5, 0])"


definition lower_arrays :: arrays where
  "lower_arrays = (\<lambda>_. [])(0 := [0, 5, 0], 1 := [0, 4, 0])"

text \<open>Arguments for a jurisdiction without data.\<close>

definition no_data_args :: args where
  "no_data_args = demo_args\<lparr>jurisdiction := ''XX''\<rparr>"

text \<open>A sampler of two offsets for the date tuple deriver.\<close>

definition demo_draw :: "int \<Rightarrow> int list \<times> int" where
  "demo_draw rng = ([rng, 2 * rng], rng + 1)"

section \<open>Properties\<close>

subsection \<open>Stages in sequence\<close>

lemma fst_and_then:
  "fst (and_then m f) = (case snd m of Inl x \<Rightarrow> fst m | Inr v \<Rightarrow> fst m @ fst (f v))"
  by (cases m) (auto simp: and_then_def split: sum.splits prod.splits)

lemma snd_and_then:
  "snd (and_then m f) = (case snd m of Inl x \<Rightarrow> Inl x | Inr v \<Rightarrow> snd (f v))"
  by (cases m) (auto simp: and_then_def split: sum.splits prod.splits)

subsection \<open>The sparse-segment loop\<close>

declare sparse_loop.simps [simp del]

lemma loop_state_Suc:
  "loop_state e f rng st (Suc k)
     = (snd (attempt e f rng st k), snd (fst (attempt e f rng st k)))"
  by (simp add: attempt_def Let_def)

text \<open>One pass of the loop, entered with the generator and the store of attempt \<open>attempts\<close>.\<close>

lemma sparse_loop_step:
  assumes "attempts < 7"
  shows "sparse_loop e signal f attempts (fst (loop_state e f rng st attempts))
           (snd (loop_state e f rng st attempts)) cur
     = (case attempt_outcome e signal f rng st attempts of
          Mismatch \<Rightarrow> ([attempt_event e f rng st attempts], Inl (Raised ValueError))
        | Accept \<Rightarrow>
            ([attempt_event e f rng st attempts],
             Inr (attempt_ref e f rng st attempts,
                  snd (loop_state e f rng st (Suc attempts)),
                  fst (loop_state e f rng st (Suc attempts))))
        | Retry \<Rightarrow>
            (case sparse_loop e signal f (Suc attempts)
                    (fst (loop_state e f rng st (Suc attempts)))
                    (snd (loop_state e f rng st (Suc attempts)))
                    (Some (attempt_ref e f rng st attempts)) of
               (l, res) \<Rightarrow> (attempt_event e f rng st attempts # l, res)))"
  using assms
  by (subst sparse_loop.simps)
     (simp add: attempt_outcome_def difference_outcome_def attempt_event_def attempt_input_def
        attempt_result_def attempt_signal_def attempt_ref_def attempt_def Let_def
        split: option.splits)

lemma sparse_loop_after:
  "sparse_loop e signal f 7 rng st (Some ts) = ([], Inr (ts, st, rng))"
  by (simp add: sparse_loop.simps[of _ _ _ 7])

text \<open>
  The loop entered at attempt \<open>attempts\<close>: it runs the attempts up to the first one whose
  outcome is not \<open>Retry\<close>, or up to attempt 6.
\<close>

lemma sparse_loop_from:
  "attempts < 7 \<Longrightarrow>
   sparse_loop e signal f attempts (fst (loop_state e f rng st attempts))
       (snd (loop_state e f rng st attempts)) cur
     = (case find (\<lambda>k. attempt_outcome e signal f rng st k \<noteq> Retry) [attempts..<7] of
          None \<Rightarrow>
            (map (attempt_event e f rng st) [attempts..<7],
             Inr (attempt_ref e f rng st 6, snd (loop_state e f rng st 7),
                  fst (loop_state e f rng st 7)))
        | Some n \<Rightarrow>
            (map (attempt_event e f rng st) [attempts..<Suc n],
             if attempt_outcome e signal f rng st n = Accept
             then Inr (attempt_ref e f rng st n, snd (loop_state e f rng st (Suc n)),
                       fst (loop_state e f rng st (Suc n)))
             else Inl (Raised ValueError)))"
proof (induction "7 - attempts" arbitrary: attempts cur)
  case 0
  then show ?case by simp
next
  case (Suc d)
  have upt: "[attempts..<7] = attempts # [Suc attempts..<7]"
    using Suc.prems by (simp add: upt_conv_Cons)
  show ?case
  proof (cases "attempt_outcome e signal f rng st attempts")
    case Mismatch
    then show ?thesis
      by (simp add: sparse_loop_step[OF Suc.prems] upt)
  next
    case Accept
    then show ?thesis
      by (simp add: sparse_loop_step[OF Suc.prems] upt)
  next
    case Retry
    show ?thesis
    proof (cases "attempts = 6")
      case True
      have s7: "Suc 6 = 7" by simp
      show ?thesis
        using Retry unfolding True
        by (simp add: sparse_loop_step[of 6] s7 sparse_loop_after del: loop_state.simps)
    next
      case False
      with Suc.prems have lt: "Suc attempts < 7" by simp
      from Suc.hyps have d: "d = 7 - Suc attempts" by simp
      note ih = Suc.hyps(1)[OF d lt, of "Some (attempt_ref e f rng st attempts)"]
      have upt2: "\<And>n. Suc attempts \<le> n
                    \<Longrightarrow> [attempts..<Suc n] = attempts # [Suc attempts..<Suc n]"
        by (simp add: upt_conv_Cons)
      have mem: "\<And>n. find (\<lambda>k. attempt_outcome e signal f rng st k \<noteq> Retry)
                        [Suc attempts..<7] = Some n \<Longrightarrow> Suc attempts \<le> n"
        by (auto simp: find_Some_iff)
      show ?thesis
        using Retry mem
        by (simp add: sparse_loop_step[OF Suc.prems] upt ih upt2
              del: loop_state.simps upt_Suc split: option.splits)
    qed
  qed
qed

text \<open>The whole loop, from attempt 0.\<close>

lemma sparse_loop_whole:
  "sparse_loop e signal f 0 rng st cur
     = (case find (\<lambda>k. attempt_outcome e signal f rng st k \<noteq> Retry) [0..<7] of
          None \<Rightarrow>
            (map (attempt_event e f rng st) [0..<7],
             Inr (attempt_ref e f rng st 6, snd (loop_state e f rng st 7),
                  fst (loop_state e f rng st 7)))
        | Some n \<Rightarrow>
            (map (attempt_event e f rng st) [0..<Suc n],
             if attempt_outcome e signal f rng st n = Accept
             then Inr (attempt_ref e f rng st n, snd (loop_state e f rng st (Suc n)),
                       fst (loop_state e f rng st (Suc n)))
             else Inl (Raised ValueError)))"
  using sparse_loop_from[of 0 e signal f rng st cur] by simp

lemma sparse_loop_events:
  "ev \<in> set (fst (sparse_loop e signal f 0 rng st cur)) \<Longrightarrow>
     \<exists>xs d r. ev = Call_modify_sparse_segments f xs d r"
  unfolding sparse_loop_whole
  by (auto simp: attempt_event_def simp del: upt_Suc split: option.splits)





lemma sparse_loop_stop_attempt:
  "sparse_loop e signal f 0 rng st cur
     = (map (attempt_event e f rng st) [0..<min 7 (Suc (stop_attempt e signal f rng st))],
        if stop_attempt e signal f rng st < 7
           \<and> attempt_outcome e signal f rng st (stop_attempt e signal f rng st) = Mismatch
        then Inl (Raised ValueError)
        else Inr (attempt_ref e f rng st (min (stop_attempt e signal f rng st) 6),
                  snd (loop_state e f rng st (min 7 (Suc (stop_attempt e signal f rng st)))),
                  fst (loop_state e f rng st (min 7 (Suc (stop_attempt e signal f rng st))))))"
proof (cases "find (\<lambda>k. attempt_outcome e signal f rng st k \<noteq> Retry) [0..<7]")
  case None
  then have n: "stop_attempt e signal f rng st = 7" by (simp add: stop_attempt_def)
  show ?thesis unfolding sparse_loop_whole n using None by simp
next
  case (Some n)
  then have n: "stop_attempt e signal f rng st = n" by (simp add: stop_attempt_def)
  from Some have lt: "n < 7" and ne: "attempt_outcome e signal f rng st n \<noteq> Retry"
    by (auto simp: find_Some_iff)
  have m: "min 7 (Suc n) = Suc n" "min n 6 = n" using lt by simp_all
  show ?thesis unfolding sparse_loop_whole n m using Some lt ne
    by (cases "attempt_outcome e signal f rng st n") simp_all
qed

text \<open>
  A repairer that leaves the array it is handed as it was is called with the same
  contents at every attempt.
\<close>

lemma attempt_input_keeps:
  assumes "keeps_argument e f"
  shows "attempt_input e f rng st k = st f"
proof (induction k)
  case 0
  then show ?case by (simp add: attempt_input_def)
next
  case (Suc k)
  have "attempt_input e f rng st (Suc k)
          = snd (fst (modify_sparse_segments e (fst (loop_state e f rng st k))
                        (snd (loop_state e f rng st k)) f (of_nat k * threshold_inc))) f"
    by (simp add: attempt_input_def Let_def)
  also have "\<dots> = snd (loop_state e f rng st k) f"
    using assms unfolding keeps_argument_def by blast
  also have "\<dots> = st f" using Suc by (simp add: attempt_input_def)
  finally show ?case .
qed






subsection \<open>The parts of a run\<close>

text \<open>Each stage causes events of its own part of the script only.\<close>

lemma read_options_parts:
  "\<forall>ev\<in>set (fst (read_options a)). part_of ev = 1"
  by (auto simp: read_options_def halt_def go_on_def Let_def)

lemma find_input_files_parts:
  "\<forall>ev\<in>set (fst (find_input_files e a opts)). part_of ev = 1"
  unfolding find_input_files_def
  by (cases opts)
     (auto simp: fst_and_then snd_and_then halt_def go_on_def say_def Let_def
           split: sum.splits option.splits if_splits)

lemma output_path_parts:
  "\<forall>ev\<in>set (fst (output_path e a outfile' st code_list)). part_of ev = 1"
  unfolding output_path_def
  by (auto simp: fst_and_then snd_and_then halt_def go_on_def say_def Let_def
           split: sum.splits option.splits if_splits prod.splits)

lemma init_and_check_count_parts:
  "\<forall>ev\<in>set (fst (init_and_check_count e seed ns)). part_of ev = 1"
  unfolding init_and_check_count_def
  by (auto simp: fst_and_then snd_and_then halt_def go_on_def say_def Let_def
           split: sum.splits option.splits if_splits prod.splits)

lemma prepare_parts:
  "\<forall>ev\<in>set (fst (prepare e a)). part_of ev = 1"
  unfolding prepare_def
  by (auto simp: fst_and_then go_on_def split: sum.splits prod.splits
           dest: read_options_parts[rule_format] find_input_files_parts[rule_format]
                 output_path_parts[rule_format] init_and_check_count_parts[rule_format])

lemma check_output_fields_parts:
  "\<forall>ev\<in>set (fst (check_output_fields h f)). part_of ev = 2"
  by (auto simp: check_output_fields_def halt_def go_on_def split: option.splits)

lemma load_input_parts:
  "\<forall>ev\<in>set (fst (load_input e files rng)). part_of ev = 2"
  unfolding load_input_def Let_def
  using check_output_fields_parts
  by (auto simp: fst_and_then snd_and_then halt_def go_on_def error_exit_def
           split: sum.splits option.splits if_splits prod.splits)

lemma signal_processing_parts:
  "\<forall>ev\<in>set (fst (signal_processing e fd rng)). part_of ev = 3"
  unfolding signal_processing_def Let_def
  by (auto simp: fst_and_then snd_and_then halt_def go_on_def
           split: sum.splits option.splits if_splits prod.splits
           dest!: sparse_loop_events)

lemma tuples_and_output_parts:
  "\<forall>ev\<in>set (fst (tuples_and_output e p ns vn tau cdf dates sco mx ts rng)). part_of ev = 4"
  unfolding tuples_and_output_def Let_def
  by (auto simp: fst_and_then snd_and_then halt_def go_on_def
           split: sum.splits option.splits if_splits prod.splits)

lemma script_unfold:
  "script e a =
     (case snd (prepare e a) of
        Inl f \<Rightarrow> (fst (prepare e a), Inl f)
      | Inr (p, ns, files, rng) \<Rightarrow>
     (case snd (load_input e files rng) of
        Inl f \<Rightarrow> (fst (prepare e a) @ fst (load_input e files rng), Inl f)
      | Inr (vn, tau, cdf, fd, rng1) \<Rightarrow>
     (case snd (signal_processing e fd rng1) of
        Inl f \<Rightarrow> (fst (prepare e a) @ fst (load_input e files rng)
                     @ fst (signal_processing e fd rng1), Inl f)
      | Inr (dates, sco, mx, ts, rng2) \<Rightarrow>
          (fst (prepare e a) @ fst (load_input e files rng) @ fst (signal_processing e fd rng1)
             @ fst (tuples_and_output e p ns vn tau cdf dates sco mx ts rng2),
           snd (tuples_and_output e p ns vn tau cdf dates sco mx ts rng2)))))"
  unfolding script_def
  by (auto simp: prod_eq_iff fst_and_then snd_and_then split: sum.splits prod.splits)


lemma fst_main: "fst (main e a) = fst (script e a)"
  by (simp add: main_def split: prod.splits sum.splits)

lemma snd_main:
  "snd (main e a) = (case snd (script e a) of Inl f \<Rightarrow> Stopped f | Inr v \<Rightarrow> Completed)"
  by (simp add: main_def split: prod.splits sum.splits)

lemma after_copula_part: "after_copula ev \<Longrightarrow> part_of ev = 4"
  by (cases ev) auto

lemma tuples_and_output_failure:
  "Call_copula_n_variable_model n False
     \<in> set (fst (tuples_and_output e p ns vn tau cdf dates sco mx ts rng)) \<Longrightarrow>
   tuples_and_output e p ns vn tau cdf dates sco mx ts rng
     = ([Print (MsgTotalCounts sco (np_sum ts)), Print MsgRunningCopula,
         Call_copula_n_variable_model n False, Print MsgFatalCopula], Inl (SysExit (- 1)))"
  unfolding tuples_and_output_def Let_def
  by (auto simp: and_then_def halt_def go_on_def
           split: sum.splits option.splits if_splits prod.splits)

text \<open>A run ends in one of its four parts.\<close>

lemma main_cases [case_names prepare load signal tuples]:
  obtains
    (prepare) f where
      "snd (prepare e a) = Inl f"
      "fst (main e a) = fst (prepare e a)" "snd (main e a) = Stopped f"
  | (load) p ns files rng f where
      "snd (prepare e a) = Inr (p, ns, files, rng)"
      "snd (load_input e files rng) = Inl f"
      "fst (main e a) = fst (prepare e a) @ fst (load_input e files rng)"
      "snd (main e a) = Stopped f"
  | (signal) p ns files rng vn tau cdf fd rng1 f where
      "snd (prepare e a) = Inr (p, ns, files, rng)"
      "snd (load_input e files rng) = Inr (vn, tau, cdf, fd, rng1)"
      "snd (signal_processing e fd rng1) = Inl f"
      "fst (main e a) = fst (prepare e a) @ fst (load_input e files rng)
                          @ fst (signal_processing e fd rng1)"
      "snd (main e a) = Stopped f"
  | (tuples) p ns files rng vn tau cdf fd rng1 dates sco mx ts rng2 where
      "snd (prepare e a) = Inr (p, ns, files, rng)"
      "snd (load_input e files rng) = Inr (vn, tau, cdf, fd, rng1)"
      "snd (signal_processing e fd rng1) = Inr (dates, sco, mx, ts, rng2)"
      "fst (main e a) = fst (prepare e a) @ fst (load_input e files rng)
                          @ fst (signal_processing e fd rng1)
                          @ fst (tuples_and_output e p ns vn tau cdf dates sco mx ts rng2)"
      "snd (main e a) = (case snd (tuples_and_output e p ns vn tau cdf dates sco mx ts rng2) of
                           Inl f \<Rightarrow> Stopped f | Inr v \<Rightarrow> Completed)"
proof (cases "snd (prepare e a)")
  case (Inl f)
  then show ?thesis using prepare by (simp add: fst_main snd_main script_unfold)
next
  case (Inr v)
  then obtain p ns files rng where v: "snd (prepare e a) = Inr (p, ns, files, rng)"
    by (cases v) auto
  show ?thesis
  proof (cases "snd (load_input e files rng)")
    case (Inl f)
    then show ?thesis using load v by (simp add: fst_main snd_main script_unfold)
  next
    case (Inr w)
    then obtain vn tau cdf fd rng1 where
      w: "snd (load_input e files rng) = Inr (vn, tau, cdf, fd, rng1)"
      by (cases w) auto
    show ?thesis
    proof (cases "snd (signal_processing e fd rng1)")
      case (Inl f)
      then show ?thesis using signal v w by (simp add: fst_main snd_main script_unfold)
    next
      case (Inr x)
      then obtain dates sco mx ts rng2 where
        x: "snd (signal_processing e fd rng1) = Inr (dates, sco, mx, ts, rng2)"
        by (cases x) auto
      show ?thesis using tuples[OF v w x] v w x
        by (simp add: fst_main snd_main script_unfold)
    qed
  qed
qed


subsection \<open>The header check\<close>

lemma first_mismatch_none:
  assumes "length h = length f"
  shows "find (\<lambda>i. h ! i \<noteq> f ! i) [0..<length f] = None \<longleftrightarrow> h = f"
proof
  assume "find (\<lambda>i. h ! i \<noteq> f ! i) [0..<length f] = None"
  then have "\<forall>i<length f. h ! i = f ! i" by (simp add: find_None_iff)
  with assms show "h = f" by (simp add: nth_equalityI)
next
  assume "h = f"
  then show "find (\<lambda>i. h ! i \<noteq> f ! i) [0..<length f] = None" by (simp add: find_None_iff)
qed

lemma check_output_fields_ok:
  "check_output_fields h f = ([], Inr ()) \<longleftrightarrow> h = f"
proof (cases "length h = length f")
  case True
  with first_mismatch_none[OF True] show ?thesis
    by (cases "find (\<lambda>i. h ! i \<noteq> f ! i) [0..<length f]")
       (simp_all add: check_output_fields_def halt_def go_on_def)
next
  case False
  then show ?thesis by (auto simp: check_output_fields_def halt_def go_on_def)
qed

lemma check_output_fields_bad:
  assumes "h \<noteq> f"
  shows "snd (check_output_fields h f) = Inl (SysExit (- 1))"
proof (cases "length h = length f")
  case True
  with first_mismatch_none[OF True] assms show ?thesis
    by (cases "find (\<lambda>i. h ! i \<noteq> f ! i) [0..<length f]")
       (simp_all add: check_output_fields_def halt_def go_on_def)
next
  case False
  then show ?thesis by (simp add: check_output_fields_def halt_def go_on_def)
qed

lemma load_input_header:
  fixes e :: "('rng, 'obj) env"
  assumes "snd (load_input e files rng) = Inr v"
  shows "get_preprocessed_header e = OUTPUT_FIELDS e"
proof (rule ccontr)
  assume "get_preprocessed_header e \<noteq> OUTPUT_FIELDS e"
  then have "snd (check_output_fields (get_preprocessed_header e) (OUTPUT_FIELDS e)
                    :: ('obj, unit) stage) = Inl (SysExit (- 1))"
    by (rule check_output_fields_bad)
  with assms show False
    unfolding load_input_def Let_def
    by (auto simp: fst_and_then snd_and_then halt_def go_on_def error_exit_def
             split: sum.splits option.splits if_splits prod.splits)
qed

lemma load_input_mismatch:
  fixes e :: "('rng, 'obj) env"
  assumes "get_preprocessed_header e \<noteq> OUTPUT_FIELDS e"
      and "Call_get_preprocessed_header \<in> set (fst (load_input e files rng))"
  shows "snd (load_input e files rng) = Inl (SysExit (- 1))"
proof -
  from assms(1)
  have "snd (check_output_fields (get_preprocessed_header e) (OUTPUT_FIELDS e)
               :: ('obj, unit) stage) = Inl (SysExit (- 1))"
    by (rule check_output_fields_bad)
  with assms(2) show ?thesis
    unfolding load_input_def Let_def
    by (auto simp: fst_and_then snd_and_then halt_def go_on_def error_exit_def
             split: sum.splits option.splits if_splits prod.splits)
qed

subsection \<open>Exit codes\<close>












subsection \<open>The preparation and the generator\<close>

lemma prepare_unfold:
  fixes e :: "('rng, 'obj) env"
  shows "prepare e a =
     (case snd (read_options a
                  :: ('obj, string option \<times> int option \<times> int option \<times> bool \<times> bool) stage) of
        Inl f \<Rightarrow> (fst (read_options a), Inl f)
      | Inr (out, ns, seed, dg, st) \<Rightarrow>
     (case snd (find_input_files e a (out, ns, seed, dg, st)) of
        Inl f \<Rightarrow> (fst (read_options a) @ fst (find_input_files e a (out, ns, seed, dg, st)),
                   Inl f)
      | Inr (codes, files) \<Rightarrow>
     (case snd (output_path e a out st codes) of
        Inl f \<Rightarrow> (fst (read_options a) @ fst (find_input_files e a (out, ns, seed, dg, st))
                     @ fst (output_path e a out st codes), Inl f)
      | Inr path \<Rightarrow>
     (case snd (init_and_check_count e seed ns) of
        Inl f \<Rightarrow> (fst (read_options a) @ fst (find_input_files e a (out, ns, seed, dg, st))
                     @ fst (output_path e a out st codes)
                     @ fst (init_and_check_count e seed ns), Inl f)
      | Inr rng \<Rightarrow>
          (fst (read_options a) @ fst (find_input_files e a (out, ns, seed, dg, st))
             @ fst (output_path e a out st codes) @ fst (init_and_check_count e seed ns),
           Inr (path, ns, files, rng))))))"
  unfolding prepare_def
  by (auto simp: prod_eq_iff fst_and_then snd_and_then go_on_def split: sum.splits prod.splits)

lemma read_options_yields:
  "snd (read_options a) = Inr (out, ns, seed, dg, st) \<Longrightarrow>
     ns = None \<and> seed = (if truthy_int (rng_seed a) then rng_seed a else None)"
  by (auto simp: read_options_def halt_def go_on_def Let_def split: if_splits)

lemma init_and_check_count_yields:
  "snd (init_and_check_count e seed ns) = Inr rng \<Longrightarrow> rng = init_rng e seed"
  by (auto simp: init_and_check_count_def fst_and_then snd_and_then halt_def go_on_def
           split: option.splits if_splits)

lemma init_and_check_count_event:
  "Call_init_rng s \<in> set (fst (init_and_check_count e seed ns)) \<Longrightarrow> s = seed"
  by (auto simp: init_and_check_count_def fst_and_then snd_and_then halt_def go_on_def
           split: option.splits if_splits)

lemma read_options_no_init: "Call_init_rng s \<notin> set (fst (read_options a))"
  by (auto simp: read_options_def halt_def go_on_def Let_def)

lemma find_input_files_no_init: "Call_init_rng s \<notin> set (fst (find_input_files e a opts))"
  unfolding find_input_files_def
  by (cases opts)
     (auto simp: fst_and_then snd_and_then halt_def go_on_def say_def Let_def
           split: sum.splits option.splits if_splits)

lemma output_path_no_init:
  "Call_init_rng s \<notin> set (fst (output_path e a outfile' st code_list))"
  unfolding output_path_def
  by (auto simp: fst_and_then snd_and_then halt_def go_on_def say_def Let_def
           split: sum.splits option.splits if_splits prod.splits)

lemma prepare_yields:
  assumes "snd (prepare e a) = Inr (p, ns, files, rng)"
  shows "ns = None \<and> rng = init_rng e (if truthy_int (rng_seed a) then rng_seed a else None)"
  using assms unfolding prepare_unfold
  by (auto split: sum.splits prod.splits
           dest!: read_options_yields init_and_check_count_yields)

lemma prepare_init_event:
  assumes "Call_init_rng s \<in> set (fst (prepare e a))"
  shows "s = (if truthy_int (rng_seed a) then rng_seed a else None)"
  using assms unfolding prepare_unfold
  by (auto simp: read_options_no_init find_input_files_no_init output_path_no_init
           split: sum.splits prod.splits
           dest!: read_options_yields init_and_check_count_event)

lemma read_options_seed_zero:
  "read_options (a\<lparr>rng_seed := Some 0\<rparr>) = read_options (a\<lparr>rng_seed := None\<rparr>)"
  by (simp add: read_options_def truthy_int_def Let_def split del: if_split cong: if_cong)

lemma find_input_files_seed:
  "find_input_files e (a\<lparr>rng_seed := x\<rparr>) opts = find_input_files e a opts"
  by (simp add: find_input_files_def split del: if_split cong: if_cong)

lemma output_path_seed:
  "output_path e (a\<lparr>rng_seed := x\<rparr>) out st codes = output_path e a out st codes"
  by (simp add: output_path_def split del: if_split cong: if_cong option.case_cong)

lemma prepare_seed_zero:
  "prepare e (a\<lparr>rng_seed := Some 0\<rparr>) = prepare e (a\<lparr>rng_seed := None\<rparr>)"
  by (simp add: prepare_def read_options_seed_zero find_input_files_seed output_path_seed)

subsection \<open>The date tuples\<close>

declare derive_from.simps [simp del]

lemma length_date_day: "length (fst (date_day draw d c rng)) = c"
  by (induction c arbitrary: rng) (simp_all add: Let_def)

lemma date_day_bounded:
  "d \<le> max_ordinal \<Longrightarrow> t \<in> set (fst (date_day draw d c rng)) \<Longrightarrow>
     fst t \<le> max_ordinal \<and> (\<forall>s\<in>set (snd t). s \<le> max_ordinal)"
  by (induction c arbitrary: rng) (auto simp: Let_def)

lemma derive_from_length:
  "length (fst (derive_from draw sig days k remaining rng)) \<le> remaining"
proof (induction draw sig days k remaining rng rule: derive_from.induct)
  case (1 draw sig days k remaining rng)
  show ?case
  proof (cases "remaining = 0 \<or> sig = [] \<or> days = [] \<or> day_at days k > max_ordinal")
    case True
    then show ?thesis by (auto simp: derive_from.simps[of draw sig days k remaining rng])
  next
    case False
    then have c: "\<not> (remaining = 0 \<or> sig = [] \<or> days = [])" "\<not> max_ordinal < day_at days k"
      by auto
    define n where "n = min (count_at sig k) remaining"
    define today where "today = date_day draw (day_at days k) n rng"
    define rest where "rest = derive_from draw sig days (k + 1) (remaining - n) (snd today)"
    have unfold: "derive_from draw sig days k remaining rng = (fst today @ fst rest, snd rest)"
      using c by (simp add: derive_from.simps[of draw sig days k remaining rng] Let_def
                    n_def today_def rest_def)
    have ih: "length (fst rest) \<le> remaining - n"
      unfolding rest_def today_def n_def using "1.IH"[OF c refl refl] by blast
    have "length (fst today) = n" by (simp add: today_def length_date_day)
    moreover have "n \<le> remaining" by (simp add: n_def)
    ultimately show ?thesis using unfold ih by simp
  qed
qed

lemma derive_from_bounded:
  "t \<in> set (fst (derive_from draw sig days k remaining rng)) \<Longrightarrow>
     fst t \<le> max_ordinal \<and> (\<forall>s\<in>set (snd t). s \<le> max_ordinal)"
proof (induction draw sig days k remaining rng rule: derive_from.induct)
  case (1 draw sig days k remaining rng)
  show ?case
  proof (cases "remaining = 0 \<or> sig = [] \<or> days = [] \<or> day_at days k > max_ordinal")
    case True
    then show ?thesis using "1.prems"
      by (auto simp: derive_from.simps[of draw sig days k remaining rng] split: if_splits)
  next
    case False
    then have c: "\<not> (remaining = 0 \<or> sig = [] \<or> days = [])" "\<not> max_ordinal < day_at days k"
      by auto
    define n where "n = min (count_at sig k) remaining"
    define today where "today = date_day draw (day_at days k) n rng"
    define rest where "rest = derive_from draw sig days (k + 1) (remaining - n) (snd today)"
    have unfold: "derive_from draw sig days k remaining rng = (fst today @ fst rest, snd rest)"
      using c by (simp add: derive_from.simps[of draw sig days k remaining rng] Let_def
                    n_def today_def rest_def)
    have ih: "t \<in> set (fst rest) \<Longrightarrow> fst t \<le> max_ordinal \<and> (\<forall>s\<in>set (snd t). s \<le> max_ordinal)"
      unfolding rest_def today_def n_def using "1.IH"[OF c refl refl] by blast
    from "1.prems" unfold have "t \<in> set (fst today) \<or> t \<in> set (fst rest)" by simp
    then show ?thesis
    proof
      assume "t \<in> set (fst today)"
      then show ?thesis using date_day_bounded[of "day_at days k" t draw n rng] c(2)
        by (simp add: today_def)
    next
      assume "t \<in> set (fst rest)"
      then show ?thesis by (rule ih)
    qed
  qed
qed

lemma derive_from_truncated:
  "fst (snd (derive_from draw sig days k remaining rng)) \<Longrightarrow>
     length (fst (derive_from draw sig days k remaining rng)) < remaining"
proof (induction draw sig days k remaining rng rule: derive_from.induct)
  case (1 draw sig days k remaining rng)
  show ?case
  proof (cases "remaining = 0 \<or> sig = [] \<or> days = [] \<or> day_at days k > max_ordinal")
    case True
    then show ?thesis using "1.prems"
      by (auto simp: derive_from.simps[of draw sig days k remaining rng] split: if_splits)
  next
    case False
    then have c: "\<not> (remaining = 0 \<or> sig = [] \<or> days = [])" "\<not> max_ordinal < day_at days k"
      by auto
    define n where "n = min (count_at sig k) remaining"
    define today where "today = date_day draw (day_at days k) n rng"
    define rest where "rest = derive_from draw sig days (k + 1) (remaining - n) (snd today)"
    have unfold: "derive_from draw sig days k remaining rng = (fst today @ fst rest, snd rest)"
      using c by (simp add: derive_from.simps[of draw sig days k remaining rng] Let_def
                    n_def today_def rest_def)
    have ih: "fst (snd rest) \<longrightarrow> length (fst rest) < remaining - n"
      unfolding rest_def today_def n_def using "1.IH"[OF c refl refl] by blast
    have "fst (snd rest)" using "1.prems" unfold by simp
    then have "length (fst rest) < remaining - n"
      using ih by blast
    moreover have "length (fst today) = n" by (simp add: today_def length_date_day)
    ultimately show ?thesis using unfold by simp
  qed
qed

lemma tuples_and_output_writes:
  assumes "copula_n_variable_model e (requested_count ts ns) vn tau cdf rng0
             = ((Some sd, tau'), rng1)"
  shows "snd (tuples_and_output e p ns vn tau cdf dates sco mx ts rng0) = Inr ()
       \<and> (\<exists>results rng2.
            Call_write_output_file p (requested_count ts ns) ts
              (fst (generate_date_tuples e (requested_count ts ns) ts dates vn results mx rng2))
            \<in> set (fst (tuples_and_output e p ns vn tau cdf dates sco mx ts rng0)))"
proof -
  obtain sd1 rng2 where c: "correct_invalid_pseudopersons e (requested_count ts ns) vn sd tau
                              cdf rng1 = (sd1, rng2)"
    by (cases "correct_invalid_pseudopersons e (requested_count ts ns) vn sd tau cdf rng1")
  obtain dl rng3 where d: "generate_date_tuples e (requested_count ts ns) ts dates vn
                             (remap_synthetic_results e sd1 vn) mx rng2 = (dl, rng3)"
    by (cases "generate_date_tuples e (requested_count ts ns) ts dates vn
                 (remap_synthetic_results e sd1 vn) mx rng2")
  have 1: "snd (tuples_and_output e p ns vn tau cdf dates sco mx ts rng0) = Inr ()"
    using assms c d
    by (simp add: tuples_and_output_def Let_def fst_and_then snd_and_then go_on_def)
  have 2: "Call_write_output_file p (requested_count ts ns) ts
              (fst (generate_date_tuples e (requested_count ts ns) ts dates vn
                      (remap_synthetic_results e sd1 vn) mx rng2))
            \<in> set (fst (tuples_and_output e p ns vn tau cdf dates sco mx ts rng0))"
    using assms c d
    by (simp add: tuples_and_output_def Let_def fst_and_then snd_and_then go_on_def)
  from 1 2 show ?thesis by blast
qed

subsection \<open>Arguments the script does not use as documented\<close>

lemma read_options_num_samples:
  "read_options (a\<lparr>num_samples := n\<rparr>) = read_options a"
  by (simp add: read_options_def Let_def split del: if_split cong: if_cong)

lemma find_input_files_num_samples:
  "find_input_files e (a\<lparr>num_samples := n\<rparr>) opts = find_input_files e a opts"
  by (simp add: find_input_files_def split del: if_split cong: if_cong)

lemma output_path_num_samples:
  "output_path e (a\<lparr>num_samples := n\<rparr>) out st codes = output_path e a out st codes"
  by (simp add: output_path_def split del: if_split cong: if_cong option.case_cong)

lemma main_ignores_num_samples:
  "main e (a\<lparr>num_samples := n\<rparr>) = main e a"
  by (simp add: main_def script_def prepare_def read_options_num_samples
        find_input_files_num_samples output_path_num_samples)

lemma not_endswith_results:
  "\<not> endswith ''results'' ''csv''" "\<not> endswith ''results'' ''json''"
  by code_simp+

lemma main_rejects_results:
  "main e (a\<lparr>outfile := Some ''results''\<rparr>)
     = ([Print MsgSupportedExtensions], Stopped (SysExit (- 1)))"
  by (simp add: main_def script_def prepare_def read_options_def and_then_def halt_def
        truthy_str_def not_endswith_results)

lemma read_options_outfile:
  "snd (read_options a) = Inr (out, ns, seed, dg, st) \<Longrightarrow>
     out = (if truthy_str (outfile a) then outfile a else None)"
  by (cases "outfile a")
     (auto simp: read_options_def halt_def go_on_def Let_def truthy_str_def split: if_splits)

lemma output_path_bad_extension:
  assumes "EXT_CSV \<noteq> lower (snd (splitext p))" and "EXT_JSON \<noteq> lower (snd (splitext p))"
  shows "output_path e a (Some p) st codes
           = ([Print (MsgUnsupportedFormat (lower (snd (splitext p))))], Inl (SysExit (- 1)))"
  using assms by (simp add: output_path_def and_then_def halt_def Let_def)

text \<open>
  An output path whose extension is neither \<^verbatim>\<open>.csv\<close> nor \<^verbatim>\<open>.json\<close>, in any case of the
  letters, or that has no extension: the run never leaves the preparation, so no data is
  read, and it does not complete.
\<close>

lemma bad_extension_reads_no_data:
  fixes e :: "('rng, 'obj) env"
  assumes "outfile a = Some p" and "p \<noteq> []"
      and "EXT_CSV \<noteq> lower (snd (splitext p))" and "EXT_JSON \<noteq> lower (snd (splitext p))"
  shows "(\<forall>ev\<in>set (fst (main e a)). part_of ev = 1) \<and> snd (main e a) \<noteq> Completed"
proof -
  have "\<exists>f. snd (prepare e a) = Inl f"
  proof (cases "snd (read_options a
           :: ('obj, string option \<times> int option \<times> int option \<times> bool \<times> bool) stage)")
    case (Inl f)
    then show ?thesis by (simp add: prepare_unfold)
  next
    case (Inr v)
    obtain out ns seed dg st where v: "v = (out, ns, seed, dg, st)" by (cases v) auto
    from read_options_outfile[OF Inr[unfolded v]] assms(1,2)
    have out: "out = Some p" by (simp add: truthy_str_def)
    show ?thesis
    proof (cases "snd (find_input_files e a (out, ns, seed, dg, st))")
      case (Inl f)
      then show ?thesis using Inr v by (simp add: prepare_unfold)
    next
      case fi: (Inr w)
      obtain codes files where w: "w = (codes, files)" by (cases w) auto
      show ?thesis
        using Inr v fi w out output_path_bad_extension[OF assms(3,4), of e a st codes]
        by (simp add: prepare_unfold)
    qed
  qed
  then obtain f where f: "snd (prepare e a) = Inl f" by blast
  show ?thesis
    using f prepare_parts[of e a] by (cases rule: main_cases[of e a]) simp_all
qed

subsection \<open>Runs with a seed\<close>

lemma sparse_loop_init_rng:
  "sparse_loop (e\<lparr>init_rng := f\<rparr>) signal fourier attempts rng st cur
     = sparse_loop e signal fourier attempts rng st cur"
proof (induction e signal fourier attempts rng st cur rule: sparse_loop.induct)
  case (1 e signal fourier attempts rng st cur)
  show ?case
  proof (cases "attempts < 7")
    case False
    then show ?thesis
      by (simp add: sparse_loop.simps[of _ signal fourier attempts rng st cur])
  next
    case True
    let ?r = "modify_sparse_segments e rng st fourier (of_nat attempts * threshold_inc)"
    let ?st = "snd (fst ?r)"
    show ?thesis
    proof (cases "np_subtract (?st (fst (fst ?r))) (?st signal)")
      case None
      then show ?thesis using True
        by (simp add: sparse_loop.simps[of _ signal fourier attempts rng st cur] Let_def)
    next
      case (Some d)
      show ?thesis
      proof (cases "np_any d")
        case yes: True
        then show ?thesis using True Some
          by (simp add: sparse_loop.simps[of _ signal fourier attempts rng st cur] Let_def)
      next
        case no: False
        have "sparse_loop (e\<lparr>init_rng := f\<rparr>) signal fourier (attempts + 1) (snd ?r) ?st
                (Some (fst (fst ?r)))
            = sparse_loop e signal fourier (attempts + 1) (snd ?r) ?st (Some (fst (fst ?r)))"
          using "1.IH"[OF True refl refl refl refl refl Some] no by simp
        then show ?thesis using True Some no
          by (simp add: sparse_loop.simps[of _ signal fourier attempts rng st cur] Let_def)
      qed
    qed
  qed
qed

lemma find_input_files_init_rng:
  "find_input_files (e\<lparr>init_rng := f\<rparr>) a opts = find_input_files e a opts"
  by (simp add: find_input_files_def split del: if_split
        cong: if_cong option.case_cong prod.case_cong)

lemma output_path_init_rng:
  "output_path (e\<lparr>init_rng := f\<rparr>) a out st codes = output_path e a out st codes"
  by (simp add: output_path_def split del: if_split cong: if_cong option.case_cong)

lemma load_input_init_rng:
  "load_input (e\<lparr>init_rng := f\<rparr>) files rng = load_input e files rng"
  by (simp add: load_input_def Let_def error_exit_def split del: if_split
        cong: if_cong option.case_cong prod.case_cong)

lemma signal_processing_init_rng:
  "signal_processing (e\<lparr>init_rng := f\<rparr>) fd rng = signal_processing e fd rng"
  by (simp add: signal_processing_def sparse_loop_init_rng Let_def split del: if_split
        cong: if_cong option.case_cong prod.case_cong)

lemma tuples_and_output_init_rng:
  "tuples_and_output (e\<lparr>init_rng := f\<rparr>) p ns vn tau cdf dates sco mx ts rng
     = tuples_and_output e p ns vn tau cdf dates sco mx ts rng"
  by (simp add: tuples_and_output_def Let_def split del: if_split
        cong: if_cong option.case_cong prod.case_cong)

lemma init_and_check_count_init_rng:
  "f seed = init_rng e seed \<Longrightarrow>
     init_and_check_count (e\<lparr>init_rng := f\<rparr>) seed ns = init_and_check_count e seed ns"
  by (simp add: init_and_check_count_def split del: if_split
        cong: if_cong option.case_cong)

text \<open>
  With a seed other than 0 the run does not depend on the generator that the system
  time would seed: two environments that differ in \<open>init_rng None\<close> only give the same run.
\<close>

lemma seeded_run_ignores_clock:
  fixes e :: "('rng, 'obj) env"
  assumes "truthy_int (rng_seed a)"
  shows "main (e\<lparr>init_rng := (init_rng e)(None := r)\<rparr>) a = main e a"
proof -
  let ?e = "e\<lparr>init_rng := (init_rng e)(None := r)\<rparr>"
  have seed: "init_and_check_count ?e seed ns = init_and_check_count e seed ns"
    if "seed \<noteq> None" for seed ns
    using that by (intro init_and_check_count_init_rng) auto
  have "prepare ?e a = prepare e a"
  proof (cases "snd (read_options a
           :: ('obj, string option \<times> int option \<times> int option \<times> bool \<times> bool) stage)")
    case (Inl x)
    then show ?thesis by (simp add: prepare_unfold)
  next
    case (Inr v)
    obtain out ns seed dg st where v: "v = (out, ns, seed, dg, st)" by (cases v) auto
    from read_options_yields[OF Inr[unfolded v]] assms
    have "seed \<noteq> None" by (auto simp: truthy_int_def split: option.splits)
    note s = seed[OF this]
    obtain l where ro: "(read_options a
           :: ('obj, string option \<times> int option \<times> int option \<times> bool \<times> bool) stage)
         = (l, Inr (out, ns, seed, dg, st))"
      using Inr v by (cases "read_options a
           :: ('obj, string option \<times> int option \<times> int option \<times> bool \<times> bool) stage") auto
    show ?thesis
      unfolding prepare_def ro
      by (simp add: and_then_def find_input_files_init_rng output_path_init_rng s)
  qed
  then show ?thesis
    by (simp add: main_def script_def load_input_init_rng signal_processing_init_rng
          tuples_and_output_init_rng)
qed

subsection \<open>Configuration errors and the exit status\<close>





section \<open>The claims\<close>

text \<open>
  Claim C1, which the script does not meet. The claim: the count asked of the copula model
  is the sum of the synthetic timeseries; a positive sample-count override replaces that
  sum, and an override that is not positive ends the run with a configuration error before
  generation. The script never assigns \<^verbatim>\<open>args.num_samples\<close> to the local \<^verbatim>\<open>num_samples\<close>
  (\<open>main_ignores_num_samples\<close>). With \<^verbatim>\<open>--num_samples=65536\<close> (example 4 of the
  docstring) the run is the run without the argument and asks the copula model for 6
  tuples, the sum of the synthetic timeseries; with \<^verbatim>\<open>--num_samples=-5\<close> the run
  completes. The code behind the missing assignment does what the claim says: with an
  override the requested count is the override, and the check of lines 271-276 ends the
  run on \<open>-5\<close>.
\<close>

theorem num_samples_override_ignored:
  "main (demo_env 7) (demo_args\<lparr>num_samples := Some 65536\<rparr>) = main (demo_env 7) demo_args
   \<and> Call_copula_n_variable_model 6 True
        \<in> set (fst (main (demo_env 7) (demo_args\<lparr>num_samples := Some 65536\<rparr>)))
   \<and> Call_copula_n_variable_model 65536 True
        \<notin> set (fst (main (demo_env 7) (demo_args\<lparr>num_samples := Some 65536\<rparr>)))
   \<and> main (demo_env 7) (demo_args\<lparr>num_samples := Some (- 5)\<rparr>) = main (demo_env 7) demo_args
   \<and> snd (main (demo_env 7) (demo_args\<lparr>num_samples := Some (- 5)\<rparr>)) = Completed
   \<and> requested_count [0, 6, 0] (Some 65536) = 65536
   \<and> snd (init_and_check_count (demo_env 7) None (Some (- 5))
            :: (int event list \<times> (stop + int))) = Inl (SysExit (- 1))"
  by code_simp




text \<open>
  Claim C3, which the script does not meet at seed 0. The claim: for every integer seed
  and the same input data two runs give the same output. With \<^verbatim>\<open>--rng_seed=0\<close> the run is
  the run without a seed, whose generator is seeded from the system time: at the clock
  readings 1 and 2 the two runs differ. With seed 42 the two runs are the same.
\<close>

theorem seed_zero_not_reproducible:
  "main (demo_env 1) (demo_args\<lparr>rng_seed := Some 0\<rparr>)
     \<noteq> main (demo_env 2) (demo_args\<lparr>rng_seed := Some 0\<rparr>)
   \<and> main (demo_env 1) (demo_args\<lparr>rng_seed := Some 0\<rparr>) = main (demo_env 1) demo_args
   \<and> main (demo_env 2) (demo_args\<lparr>rng_seed := Some 0\<rparr>) = main (demo_env 2) demo_args
   \<and> main (demo_env 1) (demo_args\<lparr>rng_seed := Some 42\<rparr>)
     = main (demo_env 2) (demo_args\<lparr>rng_seed := Some 42\<rparr>)"
  by code_simp

text \<open>
  Claim C4. When the copula model returns \<^verbatim>\<open>None\<close> for the synthetic data (the event
  \<open>Call_copula_n_variable_model n False\<close>), the run ends at once with \<^verbatim>\<open>sys.exit(-1)\<close>:
  the diagnostic that names the copula model is the last event, right after the call, and
  no pseudoperson correction, remapping, date-tuple derivation or writing of the output
  occurs anywhere in the run.
\<close>

theorem copula_failure_aborts:
  assumes "Call_copula_n_variable_model n False \<in> set (fst (main e a))"
  shows "snd (main e a) = Stopped (SysExit (- 1))
     \<and> (\<exists>l. fst (main e a) = l @ [Call_copula_n_variable_model n False, Print MsgFatalCopula])
     \<and> (\<forall>ev\<in>set (fst (main e a)). \<not> after_copula ev)"
proof (cases rule: main_cases[of e a])
  case (prepare f)
  then show ?thesis using assms prepare_parts[of e a] by fastforce
next
  case (load p ns files rng f)
  then show ?thesis
    using assms prepare_parts[of e a] load_input_parts[of e files rng] by fastforce
next
  case (signal p ns files rng vn tau cdf fd rng1 f)
  then show ?thesis
    using assms prepare_parts[of e a] load_input_parts[of e files rng]
      signal_processing_parts[of e fd rng1] by fastforce
next
  case (tuples p ns files rng vn tau cdf fd rng1 dates sco mx ts rng2)
  have "Call_copula_n_variable_model n False
          \<in> set (fst (tuples_and_output e p ns vn tau cdf dates sco mx ts rng2))"
    using assms tuples(4) prepare_parts[of e a] load_input_parts[of e files rng]
      signal_processing_parts[of e fd rng1] by fastforce
  note t = tuples_and_output_failure[OF this]
  have 1: "snd (main e a) = Stopped (SysExit (- 1))"
    using tuples(5) t by simp
  have 2: "\<exists>l. fst (main e a)
             = l @ [Call_copula_n_variable_model n False, Print MsgFatalCopula]"
    unfolding tuples(4) t
    by (intro exI[of _ "fst (prepare e a) @ fst (load_input e files rng)
            @ fst (signal_processing e fd rng1)
            @ [Print (MsgTotalCounts sco (np_sum ts)), Print MsgRunningCopula]"]) simp
  have 3: "\<forall>ev\<in>set (fst (main e a)). \<not> after_copula ev"
    unfolding tuples(4) t
    using prepare_parts[of e a] load_input_parts[of e files rng]
      signal_processing_parts[of e fd rng1]
    by (auto dest!: after_copula_part)
  from 1 2 3 show ?thesis by blast
qed

theorem copula_failure_aborts_witness:
  "Call_copula_n_variable_model 6 False \<in> set (fst (main failing_copula_env demo_args))
   \<and> snd (main failing_copula_env demo_args) = Stopped (SysExit (- 1))
   \<and> (\<exists>l. fst (main failing_copula_env demo_args)
            = l @ [Call_copula_n_variable_model 6 False, Print MsgFatalCopula])
   \<and> list_all (\<lambda>ev. \<not> after_copula ev) (fst (main failing_copula_env demo_args))"
proof -
  have h: "Call_copula_n_variable_model 6 False
             \<in> set (fst (main failing_copula_env demo_args))"
    by code_simp
  from copula_failure_aborts[OF h] h show ?thesis by (simp add: list_all_iff)
qed

text \<open>
  Claim C5. The date tuple deriver, as section 4.5 of the specification describes it,
  yields at most \<open>n\<close> date tuples; every date in them, anchor or secondary, is at or below
  the ceiling \<^verbatim>\<open>9999-12-31\<close>; and when it reports a truncation it has dated fewer than \<open>n\<close>
  tuples. The driver does not look at the number of date tuples: once the copula model
  has returned data, whatever list the deriver returns is handed to the writer of the
  output file and the stage ends without stopping the run.
\<close>

theorem date_tuples_truncation:
  "length (fst (derive draw n synthetic_signal days rng)) \<le> nat n
   \<and> (\<forall>t\<in>set (fst (derive draw n synthetic_signal days rng)).
         fst t \<le> max_ordinal \<and> (\<forall>d\<in>set (snd t). d \<le> max_ordinal))
   \<and> (fst (snd (derive draw n synthetic_signal days rng))
        \<longrightarrow> length (fst (derive draw n synthetic_signal days rng)) < nat n)
   \<and> (copula_n_variable_model e (requested_count ts ns) vn tau cdf rng0
          = ((Some sd, tau'), rng1)
        \<longrightarrow> snd (tuples_and_output e p ns vn tau cdf dates sco mx ts rng0) = Inr ()
          \<and> (\<exists>results rng2.
                Call_write_output_file p (requested_count ts ns) ts
                  (fst (generate_date_tuples e (requested_count ts ns) ts dates vn results mx
                          rng2))
                \<in> set (fst (tuples_and_output e p ns vn tau cdf dates sco mx ts rng0))))"
  using derive_from_length[of draw synthetic_signal days 0 "nat n" rng]
    derive_from_bounded[of _ draw synthetic_signal days 0 "nat n" rng]
    derive_from_truncated[of draw synthetic_signal days 0 "nat n" rng]
    tuples_and_output_writes[of e ts ns vn tau cdf rng0 sd tau' rng1 p dates sco mx]
  unfolding derive_def by blast

theorem date_tuples_truncation_witness:
  "derive demo_draw 5 [1, 0, 2] [3652056, 3652057, 3652058] 0
     = ([(3652056, [3652056, 3652056]), (3652058, [3652059, 3652059]),
         (3652058, [3652059, 3652059]), (3652059, [3652059, 3652059])], True, 4)
   \<and> length (fst (derive demo_draw 5 [1, 0, 2] [3652056, 3652057, 3652058] 0)) < nat 5
   \<and> list_all (\<lambda>t. fst t \<le> max_ordinal \<and> list_all (\<lambda>d. d \<le> max_ordinal) (snd t))
        (fst (derive demo_draw 5 [1, 0, 2] [3652056, 3652057, 3652058] 0))
   \<and> copula_n_variable_model (demo_env 7) (requested_count [0, 6, 0] None) [] 0 0 14
        = ((Some 14, 0), 15)
   \<and> snd (tuples_and_output (demo_env 7) ''out.csv'' None [] 0 0 [] 5 ''2020-01-03''
             [0, 6, 0] 14) = Inr ()"
proof -
  have v: "derive demo_draw 5 [1, 0, 2] [3652056, 3652057, 3652058] 0
     = ([(3652056, [3652056, 3652056]), (3652058, [3652059, 3652059]),
         (3652058, [3652059, 3652059]), (3652059, [3652059, 3652059])], True, 4)"
    by code_simp
  then have tr: "fst (snd (derive demo_draw 5 [1, 0, 2] [3652056, 3652057, 3652058] 0))"
    by simp
  have c: "copula_n_variable_model (demo_env 7) (requested_count [0, 6, 0] None) [] 0 0 14
        = ((Some 14, 0), 15)"
    by code_simp
  from date_tuples_truncation[of demo_draw 5 "[1, 0, 2]" "[3652056, 3652057, 3652058]" 0
         "demo_env 7" "[0, 6, 0]" None "[]" 0 0 14 14 0 15 "''out.csv''" "[]" 5 "''2020-01-03''"]
    tr c
  have "length (fst (derive demo_draw 5 [1, 0, 2] [3652056, 3652057, 3652058] 0)) < nat 5
   \<and> (\<forall>t\<in>set (fst (derive demo_draw 5 [1, 0, 2] [3652056, 3652057, 3652058] 0)).
         fst t \<le> max_ordinal \<and> (\<forall>d\<in>set (snd t). d \<le> max_ordinal))
   \<and> snd (tuples_and_output (demo_env 7) ''out.csv'' None [] 0 0 [] 5 ''2020-01-03''
             [0, 6, 0] 14) = Inr ()"
    by blast
  then show ?thesis using v c by (simp only: list_all_iff) blast
qed

text \<open>
  Claim C6, which the script does not meet. The claim: an output path without an
  extension is given \<^verbatim>\<open>.csv\<close> and is not rejected. The path \<^verbatim>\<open>results\<close> is stopped by the
  guard of line 177 with \<^verbatim>\<open>sys.exit(-1)\<close>, before any other event. Lines 238-249 alone
  reject it as well: \<^verbatim>\<open>splitext\<close> gives the empty string, which is not \<^verbatim>\<open>None\<close>, so the
  branch of line 241 is not taken; the path \<^verbatim>\<open>resultscsv\<close>, which passes the guard, ends
  that way. The path \<^verbatim>\<open>results.csv\<close> is accepted. The extension \<^verbatim>\<open>.xcsv\<close> passes the
  guard, and with no input file the run ends with \<^verbatim>\<open>sys.exit(0)\<close> before the extension
  is looked at.
\<close>

theorem missing_extension_rejected:
  "main (demo_env 7) (demo_args\<lparr>outfile := Some ''results''\<rparr>)
     = ([Print MsgSupportedExtensions], Stopped (SysExit (- 1)))
   \<and> (output_path (demo_env 7) demo_args (Some ''results'') False [11080]
         :: (int event list \<times> (stop + string)))
       = ([Print (MsgUnsupportedFormat [])], Inl (SysExit (- 1)))
   \<and> splitext ''resultscsv'' = (''resultscsv'', [])
   \<and> snd (main (demo_env 7) (demo_args\<lparr>outfile := Some ''resultscsv''\<rparr>))
       = Stopped (SysExit (- 1))
   \<and> last (fst (main (demo_env 7) (demo_args\<lparr>outfile := Some ''resultscsv''\<rparr>)))
       = Print (MsgUnsupportedFormat [])
   \<and> snd (main (demo_env 7) (demo_args\<lparr>outfile := Some ''results.csv''\<rparr>)) = Completed
   \<and> snd (main (demo_env 7) (no_data_args\<lparr>outfile := Some ''a.xcsv''\<rparr>)) = Stopped (SysExit 0)"
  by code_simp




text \<open>
  Claim C8. The header of the preprocessed data is compared with the output fields before
  any generation. The check lets the run go on, without an event of its own, exactly when
  the two lists are equal (same length, equal strings at every position); otherwise it
  ends the run with \<^verbatim>\<open>sys.exit(-1)\<close>. In a run whose header differs from the output
  fields, no event belongs to the signal processing or to what follows it, the run does
  not complete, and it ends with \<^verbatim>\<open>sys.exit(-1)\<close> once the header has been fetched.
\<close>

theorem header_mismatch_aborts:
  "(check_output_fields header_list output_fields = ([], Inr ())
      \<longleftrightarrow> header_list = output_fields)
   \<and> (header_list \<noteq> output_fields
        \<longrightarrow> snd (check_output_fields header_list output_fields) = Inl (SysExit (- 1)))
   \<and> (get_preprocessed_header e \<noteq> OUTPUT_FIELDS e
        \<longrightarrow> (\<forall>ev\<in>set (fst (main e a)). part_of ev \<le> 2)
          \<and> snd (main e a) \<noteq> Completed
          \<and> (Call_get_preprocessed_header \<in> set (fst (main e a))
               \<longrightarrow> snd (main e a) = Stopped (SysExit (- 1))))"
proof -
  have whole: "(\<forall>ev\<in>set (fst (main e a)). part_of ev \<le> 2)
          \<and> snd (main e a) \<noteq> Completed
          \<and> (Call_get_preprocessed_header \<in> set (fst (main e a))
               \<longrightarrow> snd (main e a) = Stopped (SysExit (- 1)))"
    if ne: "get_preprocessed_header e \<noteq> OUTPUT_FIELDS e"
  proof (cases rule: main_cases[of e a])
    case (prepare f)
    then show ?thesis using prepare_parts[of e a] by fastforce
  next
    case (load p ns files rng f)
    have "Call_get_preprocessed_header \<in> set (fst (main e a)) \<Longrightarrow> f = SysExit (- 1)"
      using load load_input_mismatch[OF ne, of files rng] prepare_parts[of e a] by fastforce
    then show ?thesis
      using load prepare_parts[of e a] load_input_parts[of e files rng] by fastforce
  next
    case (signal p ns files rng vn tau cdf fd rng1 f)
    then show ?thesis using load_input_header[OF signal(2)] ne by simp
  next
    case (tuples p ns files rng vn tau cdf fd rng1 dates sco mx ts rng2)
    then show ?thesis using load_input_header[OF tuples(2)] ne by simp
  qed
  show ?thesis
    using whole check_output_fields_ok check_output_fields_bad by blast
qed

theorem header_mismatch_aborts_witness:
  "get_preprocessed_header bad_header_env \<noteq> OUTPUT_FIELDS bad_header_env
   \<and> Call_get_preprocessed_header \<in> set (fst (main bad_header_env demo_args))
   \<and> list_all (\<lambda>ev. part_of ev \<le> 2) (fst (main bad_header_env demo_args))
   \<and> snd (main bad_header_env demo_args) = Stopped (SysExit (- 1))"
proof -
  have h1: "get_preprocessed_header bad_header_env \<noteq> OUTPUT_FIELDS bad_header_env"
    by code_simp
  have h2: "Call_get_preprocessed_header \<in> set (fst (main bad_header_env demo_args))"
    by code_simp
  from header_mismatch_aborts[of "[]" "[]" bad_header_env demo_args] h1 h2
  have "(\<forall>ev\<in>set (fst (main bad_header_env demo_args)). part_of ev \<le> 2)
      \<and> snd (main bad_header_env demo_args) = Stopped (SysExit (- 1))"
    by blast
  with h1 h2 show ?thesis by (simp only: list_all_iff) blast
qed

text \<open>
  Claim C9. With the seed argument equal to 0 the test \<^verbatim>\<open>if args.rng_seed:\<close> fails, the
  local \<^verbatim>\<open>rng_seed\<close> stays \<^verbatim>\<open>None\<close>, and the whole run is the run without a seed: the
  generator is \<open>init_rng None\<close>, the one seeded from the system time, and no call
  \<open>init_rng (Some 0)\<close> occurs.
\<close>

theorem seed_zero_is_no_seed:
  "main e (a\<lparr>rng_seed := Some 0\<rparr>) = main e (a\<lparr>rng_seed := None\<rparr>)
   \<and> (\<forall>p ns files rng. snd (prepare e (a\<lparr>rng_seed := Some 0\<rparr>)) = Inr (p, ns, files, rng)
         \<longrightarrow> rng = init_rng e None)
   \<and> (\<forall>s. Call_init_rng s \<in> set (fst (main e (a\<lparr>rng_seed := Some 0\<rparr>))) \<longrightarrow> s = None)"
proof (intro conjI allI impI)
  show "main e (a\<lparr>rng_seed := Some 0\<rparr>) = main e (a\<lparr>rng_seed := None\<rparr>)"
    by (simp add: main_def script_def prepare_seed_zero)
next
  fix p ns files rng
  assume "snd (prepare e (a\<lparr>rng_seed := Some 0\<rparr>)) = Inr (p, ns, files, rng)"
  from prepare_yields[OF this] show "rng = init_rng e None" by (simp add: truthy_int_def)
next
  fix s
  assume s: "Call_init_rng s \<in> set (fst (main e (a\<lparr>rng_seed := Some 0\<rparr>)))"
  have other: "Call_init_rng s \<notin> set l" if "\<forall>ev\<in>set l. part_of ev \<noteq> 1" for l
    using that by fastforce
  have "Call_init_rng s \<in> set (fst (prepare e (a\<lparr>rng_seed := Some 0\<rparr>)))"
  proof (cases rule: main_cases[of e "a\<lparr>rng_seed := Some 0\<rparr>"])
    case (prepare f)
    then show ?thesis using s by simp
  next
    case (load p ns files rng f)
    have "Call_init_rng s \<notin> set (fst (load_input e files rng))"
      using other load_input_parts[of e files rng] by fastforce
    then show ?thesis using s load by simp
  next
    case (signal p ns files rng vn tau cdf fd rng1 f)
    have "Call_init_rng s \<notin> set (fst (load_input e files rng))"
      using other load_input_parts[of e files rng] by fastforce
    moreover have "Call_init_rng s \<notin> set (fst (signal_processing e fd rng1))"
      using other signal_processing_parts[of e fd rng1] by fastforce
    ultimately show ?thesis using s signal by simp
  next
    case (tuples p ns files rng vn tau cdf fd rng1 dates sco mx ts rng2)
    have "Call_init_rng s \<notin> set (fst (load_input e files rng))"
      using other load_input_parts[of e files rng] by fastforce
    moreover have "Call_init_rng s \<notin> set (fst (signal_processing e fd rng1))"
      using other signal_processing_parts[of e fd rng1] by fastforce
    moreover have "Call_init_rng s
        \<notin> set (fst (tuples_and_output e p ns vn tau cdf dates sco mx ts rng2))"
      using other tuples_and_output_parts[of e p ns vn tau cdf dates sco mx ts rng2]
      by fastforce
    ultimately show ?thesis using s tuples by simp
  qed
  from prepare_init_event[OF this] show "s = None" by (simp add: truthy_int_def)
qed

theorem seed_zero_is_no_seed_witness:
  "main (demo_env 7) (demo_args\<lparr>rng_seed := Some 0\<rparr>)
     = main (demo_env 7) (demo_args\<lparr>rng_seed := None\<rparr>)
   \<and> Call_init_rng None \<in> set (fst (main (demo_env 7) (demo_args\<lparr>rng_seed := Some 0\<rparr>)))
   \<and> Call_init_rng (Some 0)
        \<notin> set (fst (main (demo_env 7) (demo_args\<lparr>rng_seed := Some 0\<rparr>)))"
proof -
  have "Call_init_rng None \<in> set (fst (main (demo_env 7) (demo_args\<lparr>rng_seed := Some 0\<rparr>)))"
    by code_simp
  with seed_zero_is_no_seed[of "demo_env 7" demo_args] show ?thesis by blast
qed

text \<open>
  Claim C10, amended. Every attempt of the loop hands the repairer the same array, the one
  the variable \<^verbatim>\<open>synthetic_fourier\<close> refers to, and never the variable
  \<^verbatim>\<open>synthetic_timeseries\<close> that holds the result of the attempt before. The array is
  handed over by reference: at attempt 0 its contents are the Fourier output, and at
  attempt \<open>k + 1\<close> they are what the call of attempt \<open>k\<close> left there. So the attempts
  differ in the threshold, in the generator and in the store as the earlier calls left it.
  When the repairer leaves the array it is handed as it was, every attempt is applied to
  the Fourier output. When the loop yields a result, it is the array that the last call
  returned, with the contents that call gave it; the only other way out of the loop is
  the \<^verbatim>\<open>ValueError\<close> of the subtraction.
\<close>

theorem sparse_loop_same_array:
  "(\<forall>ev\<in>set (fst (sparse_loop e signal synthetic_fourier 0 rng arrays None)).
       \<exists>xs d r. ev = Call_modify_sparse_segments synthetic_fourier xs d r)
   \<and> (\<exists>m. 0 < m \<and> m \<le> 7
        \<and> fst (sparse_loop e signal synthetic_fourier 0 rng arrays None)
            = map (\<lambda>k. Call_modify_sparse_segments synthetic_fourier
                         (attempt_input e synthetic_fourier rng arrays k)
                         (of_nat k * threshold_inc)
                         (attempt_result e synthetic_fourier rng arrays k)) [0..<m]
        \<and> (snd (sparse_loop e signal synthetic_fourier 0 rng arrays None)
              = Inl (Raised ValueError)
           \<or> snd (sparse_loop e signal synthetic_fourier 0 rng arrays None)
               = Inr (attempt_ref e synthetic_fourier rng arrays (m - 1),
                      snd (loop_state e synthetic_fourier rng arrays m),
                      fst (loop_state e synthetic_fourier rng arrays m))
             \<and> snd (loop_state e synthetic_fourier rng arrays m)
                  (attempt_ref e synthetic_fourier rng arrays (m - 1))
                 = attempt_result e synthetic_fourier rng arrays (m - 1)))
   \<and> attempt_input e synthetic_fourier rng arrays 0 = arrays synthetic_fourier
   \<and> (\<forall>k. attempt_input e synthetic_fourier rng arrays (Suc k)
            = snd (fst (attempt e synthetic_fourier rng arrays k)) synthetic_fourier)
   \<and> (keeps_argument e synthetic_fourier
        \<longrightarrow> (\<forall>k. attempt_input e synthetic_fourier rng arrays k = arrays synthetic_fourier))"
proof -
  define n where "n = stop_attempt e signal synthetic_fourier rng arrays"
  define m where "m = min 7 (Suc n)"
  have ev: "attempt_event e synthetic_fourier rng arrays
      = (\<lambda>k. Call_modify_sparse_segments synthetic_fourier
                    (attempt_input e synthetic_fourier rng arrays k) (of_nat k * threshold_inc)
                    (attempt_result e synthetic_fourier rng arrays k))"
    by (rule ext) (simp add: attempt_event_def)
  have m: "0 < m" "m \<le> 7" by (simp_all add: m_def)
  have pred: "min n 6 = m - 1" by (simp add: m_def)
  have 1: "\<forall>ev\<in>set (fst (sparse_loop e signal synthetic_fourier 0 rng arrays None)).
       \<exists>xs d r. ev = Call_modify_sparse_segments synthetic_fourier xs d r"
    using sparse_loop_events[of _ e signal synthetic_fourier rng arrays None] by blast
  have 2: "fst (sparse_loop e signal synthetic_fourier 0 rng arrays None)
            = map (\<lambda>k. Call_modify_sparse_segments synthetic_fourier
                         (attempt_input e synthetic_fourier rng arrays k)
                         (of_nat k * threshold_inc)
                         (attempt_result e synthetic_fourier rng arrays k)) [0..<m]"
    unfolding sparse_loop_stop_attempt ev m_def n_def by simp
  have 3: "snd (sparse_loop e signal synthetic_fourier 0 rng arrays None)
              = Inl (Raised ValueError)
           \<or> snd (sparse_loop e signal synthetic_fourier 0 rng arrays None)
               = Inr (attempt_ref e synthetic_fourier rng arrays (m - 1),
                      snd (loop_state e synthetic_fourier rng arrays m),
                      fst (loop_state e synthetic_fourier rng arrays m))"
    unfolding sparse_loop_stop_attempt pred[symmetric] unfolding m_def n_def
    by (simp del: loop_state.simps)
  obtain j where j: "m = Suc j" using m(1) by (cases m) auto
  have 4: "snd (loop_state e synthetic_fourier rng arrays m)
                  (attempt_ref e synthetic_fourier rng arrays (m - 1))
                 = attempt_result e synthetic_fourier rng arrays (m - 1)"
    unfolding j
    by (simp add: loop_state_Suc attempt_ref_def attempt_result_def del: loop_state.simps)
  have 5: "attempt_input e synthetic_fourier rng arrays 0 = arrays synthetic_fourier"
    by (simp add: attempt_input_def)
  have 6: "\<forall>k. attempt_input e synthetic_fourier rng arrays (Suc k)
            = snd (fst (attempt e synthetic_fourier rng arrays k)) synthetic_fourier"
    by (simp add: attempt_input_def loop_state_Suc del: loop_state.simps)
  have 7: "keeps_argument e synthetic_fourier
        \<longrightarrow> (\<forall>k. attempt_input e synthetic_fourier rng arrays k = arrays synthetic_fourier)"
    using attempt_input_keeps[of e synthetic_fourier rng arrays] by blast
  from m 1 2 3 4 5 6 7 show ?thesis by blast
qed


text \<open>
  The repairer of the small instance writes to a new array only, so all its attempts see
  the Fourier output \<open>[0, 5, 0]\<close>.
\<close>

theorem sparse_loop_same_array_witness:
  "keeps_argument (demo_env 7) 1
   \<and> list_all (\<lambda>k. attempt_input (demo_env 7) 1 9 demo_arrays k = [0, 5, 0]) [0..<7]
   \<and> list_all (\<lambda>ev. \<exists>xs d r. ev = Call_modify_sparse_segments 1 xs d r)
        (fst (sparse_loop (demo_env 7) 0 1 0 9 demo_arrays None))
   \<and> fst (sparse_loop (demo_env 7) 0 1 0 9 demo_arrays None)
       = [Call_modify_sparse_segments 1 [0, 5, 0] 0 [0, 5, 0],
          Call_modify_sparse_segments 1 [0, 5, 0] (1 / 10) [0, 5, 0],
          Call_modify_sparse_segments 1 [0, 5, 0] (1 / 5) [0, 5, 0],
          Call_modify_sparse_segments 1 [0, 5, 0] (3 / 10) [0, 5, 0],
          Call_modify_sparse_segments 1 [0, 5, 0] (2 / 5) [0, 6, 0]]"
proof -
  have k: "keeps_argument (demo_env 7) 1"
    by (simp add: keeps_argument_def demo_env_def)
  have d: "demo_arrays 1 = [0, 5, 0]" by (simp add: demo_arrays_def)
  have v: "fst (sparse_loop (demo_env 7) 0 1 0 9 demo_arrays None)
       = [Call_modify_sparse_segments 1 [0, 5, 0] 0 [0, 5, 0],
          Call_modify_sparse_segments 1 [0, 5, 0] (1 / 10) [0, 5, 0],
          Call_modify_sparse_segments 1 [0, 5, 0] (1 / 5) [0, 5, 0],
          Call_modify_sparse_segments 1 [0, 5, 0] (3 / 10) [0, 5, 0],
          Call_modify_sparse_segments 1 [0, 5, 0] (2 / 5) [0, 6, 0]]"
    by code_simp
  note t = sparse_loop_same_array[of "demo_env 7" 0 1 9 demo_arrays]
  have a: "\<forall>k. attempt_input (demo_env 7) 1 9 demo_arrays k = [0, 5, 0]"
    using t k d by simp
  have b: "\<forall>ev\<in>set (fst (sparse_loop (demo_env 7) 0 1 0 9 demo_arrays None)).
       \<exists>xs d r. ev = Call_modify_sparse_segments 1 xs d r"
    using t by blast
  from k a b v show ?thesis by (simp only: list_all_iff) simp
qed


text \<open>
  The claim as it was stated has every attempt applied to the unchanged Fourier output.
  With a repairer that works in place, the Fourier output \<open>[0, 4, 0]\<close> and the signal
  \<open>[0, 5, 0]\<close>: attempt 0 turns the array into \<open>[0, 5, 0]\<close> and returns it, the
  difference is zero, and attempt 1 is applied to \<open>[0, 5, 0]\<close>, the result of attempt 0;
  the series \<open>[0, 6, 0]\<close> that the loop yields carries the changes of both attempts.
\<close>

theorem inplace_repair_accumulates:
  "lower_arrays 1 = [0, 4, 0]
   \<and> fst (sparse_loop inplace_repair_env 0 1 0 9 lower_arrays None)
       = [Call_modify_sparse_segments 1 [0, 4, 0] 0 [0, 5, 0],
          Call_modify_sparse_segments 1 [0, 5, 0] (1 / 10) [0, 6, 0]]
   \<and> attempt_ref inplace_repair_env 1 9 lower_arrays 0 = 1
   \<and> attempt_result inplace_repair_env 1 9 lower_arrays 0 = [0, 5, 0]
   \<and> attempt_input inplace_repair_env 1 9 lower_arrays 1 = [0, 5, 0]
   \<and> attempt_input inplace_repair_env 1 9 lower_arrays 1 \<noteq> lower_arrays 1
   \<and> attempt_result inplace_repair_env 1 9 lower_arrays 1 = [0, 6, 0]
   \<and> \<not> keeps_argument inplace_repair_env 1
   \<and> Call_modify_sparse_segments 1 [0, 5, 0] (1 / 10) [0, 6, 0]
        \<in> set (fst (main inplace_repair_env demo_args))
   \<and> snd (main inplace_repair_env demo_args) = Completed"
proof -
  have nk: "\<not> keeps_argument inplace_repair_env 1"
  proof
    assume "keeps_argument inplace_repair_env 1"
    then have "snd (fst (modify_sparse_segments inplace_repair_env 9 lower_arrays 1 0)) 1
                 = lower_arrays 1"
      unfolding keeps_argument_def by blast
    moreover have "snd (fst (modify_sparse_segments inplace_repair_env 9 lower_arrays 1 0)) 1
                 \<noteq> lower_arrays 1"
      by code_simp
    ultimately show False by simp
  qed
  have rest: "lower_arrays 1 = [0, 4, 0]
   \<and> fst (sparse_loop inplace_repair_env 0 1 0 9 lower_arrays None)
       = [Call_modify_sparse_segments 1 [0, 4, 0] 0 [0, 5, 0],
          Call_modify_sparse_segments 1 [0, 5, 0] (1 / 10) [0, 6, 0]]
   \<and> attempt_ref inplace_repair_env 1 9 lower_arrays 0 = 1
   \<and> attempt_result inplace_repair_env 1 9 lower_arrays 0 = [0, 5, 0]
   \<and> attempt_input inplace_repair_env 1 9 lower_arrays 1 = [0, 5, 0]
   \<and> attempt_input inplace_repair_env 1 9 lower_arrays 1 \<noteq> lower_arrays 1
   \<and> attempt_result inplace_repair_env 1 9 lower_arrays 1 = [0, 6, 0]
   \<and> Call_modify_sparse_segments 1 [0, 5, 0] (1 / 10) [0, 6, 0]
        \<in> set (fst (main inplace_repair_env demo_args))
   \<and> snd (main inplace_repair_env demo_args) = Completed"
    by code_simp
  from nk rest show ?thesis by blast
qed

end
